theory Spec2Isabelle
  imports Complex_Main "HOL-Library.Word" "HOL-Library.Sublist" "HOL-Library.Multiset"
begin

unbundle bit_operations_syntax

section \<open>Numbers\<close>

text \<open>
  A JavaScript \<^verbatim>\<open>number\<close> is an IEEE-754 binary64 value. Where a function is studied
  as a map on numbers (normalization, softmax, the selection of a temperature), a finite
  number is modelled as a mathematical \<^typ>\<open>real\<close> and its arithmetic is exact. Where
  the source can produce \<^verbatim>\<open>NaN\<close> from finite, well-typed inputs (a read past the end of
  an array, \<^verbatim>\<open>0 / 0\<close> on an empty case list, a temperature of zero) the value has type
  \<^typ>\<open>real option\<close> and \<^term>\<open>None\<close> stands for \<^verbatim>\<open>NaN\<close>. Where the outcome depends on
  the rounding of an operation (the split index of the bootstrap, the state of the
  generator, the weighted sum of the rating) the operation is rounded as the hardware
  rounds it, with \<open>fl\<close> below; where it depends on the range of the doubles (the
  overflow of the scaled similarities) the value is a \<open>jsnum\<close>, which has the two
  infinities and \<^verbatim>\<open>NaN\<close>.
\<close>

definition Math_round :: "real \<Rightarrow> int" where
  \<comment> \<open>\<^verbatim>\<open>Math.round\<close>: the nearest integer, a tie going up.\<close>
  "Math_round x = \<lfloor>x + 1 / 2\<rfloor>"

fun Math_max :: "real list \<Rightarrow> real" where
  \<comment> \<open>\<^verbatim>\<open>Math.max(...xs)\<close> on a non-empty array.\<close>
  "Math_max (x # xs) = foldl max x xs"

fun Math_min :: "real list \<Rightarrow> real" where
  \<comment> \<open>\<^verbatim>\<open>Math.min(...xs)\<close> on a non-empty array.\<close>
  "Math_min (x # xs) = foldl min x xs"

subsection \<open>Rounding to binary64\<close>

text \<open>
  The doubles around \<open>x\<close> with \<open>2^e \<le> |x| < 2^(e+1)\<close> are the multiples of
  \<open>2^(e-52)\<close>; below \<open>2^(-1022)\<close> (the subnormal range) they are the multiples of
  \<open>2^(-1074)\<close>. An operation \<^verbatim>\<open>+\<close>, \<^verbatim>\<open>-\<close>, \<^verbatim>\<open>*\<close>, \<^verbatim>\<open>/\<close> on doubles returns the double
  nearest to the exact result, a tie going to the even significand; a decimal literal
  denotes the double nearest to it. \<open>fl\<close> is this rounding for results below \<open>2^1024\<close>
  in magnitude (it does not overflow to an infinity; it is applied to such results
  only).
\<close>

definition round_ties_even :: "real \<Rightarrow> int" where
  "round_ties_even q =
     (let f = \<lfloor>q\<rfloor>
      in if q - real_of_int f < 1 / 2 then f
         else if 1 / 2 < q - real_of_int f then f + 1
         else if even f then f else f + 1)"

definition ulp :: "real \<Rightarrow> real" where
  "ulp x = 2 powr real_of_int (max \<lfloor>log 2 \<bar>x\<bar>\<rfloor> (- 1022) - 52)"

definition fl :: "real \<Rightarrow> real" where
  "fl x = real_of_int (round_ties_even (x / ulp x)) * ulp x"

section \<open>The similarity scorer (embedding-service.ts)\<close>

datatype SimilarityNormalization = none | minmax | zscore

text \<open>
  \<^verbatim>\<open>cosineSimilarity\<close> runs over the indices of \<open>a\<close>. Reading \<^verbatim>\<open>b[i]\<close> past the end of
  \<open>b\<close> gives \<^verbatim>\<open>undefined\<close>, the sums become \<^verbatim>\<open>NaN\<close>, the test \<^verbatim>\<open>denom === 0\<close> is
  false and the function returns \<^verbatim>\<open>NaN\<close>. Nothing is thrown.
\<close>

definition cosine_step ::
  "real list \<Rightarrow> real list \<Rightarrow> nat \<Rightarrow> (real \<times> real \<times> real) option \<Rightarrow> (real \<times> real \<times> real) option"
where
  "cosine_step a b i acc =
     (case acc of
        None \<Rightarrow> None
      | Some (dot, normA, normB) \<Rightarrow>
          if i < length b
          then Some (dot + a ! i * b ! i, normA + a ! i * a ! i, normB + b ! i * b ! i)
          else None)"

definition cosineSimilarity :: "real list \<Rightarrow> real list \<Rightarrow> real option" where
  "cosineSimilarity a b =
     (case fold (cosine_step a b) [0..<length a] (Some (0, 0, 0)) of
        None \<Rightarrow> None
      | Some (dot, normA, normB) \<Rightarrow>
          (let denom = sqrt normA * sqrt normB
           in if denom = 0 then Some 0 else Some (dot / denom)))"

definition computeSimilarities :: "real list \<Rightarrow> real list list \<Rightarrow> real option list" where
  "computeSimilarities responseVec anchorVecs = map (cosineSimilarity responseVec) anchorVecs"

definition normalizeSimilarities :: "real list \<Rightarrow> SimilarityNormalization \<Rightarrow> real list" where
  "normalizeSimilarities similarities method =
     (if method = none \<or> length similarities \<le> 1 then similarities
      else case method of
        minmax \<Rightarrow>
          (let mn = Math_min similarities;
               mx = Math_max similarities;
               rangeV = mx - mn
           in if rangeV = 0 then map (\<lambda>s. 1 / real (length similarities)) similarities
              else map (\<lambda>s. (s - mn) / rangeV) similarities)
      | zscore \<Rightarrow>
          (let mean = foldl (+) 0 similarities / real (length similarities);
               variance = foldl (\<lambda>acc s. acc + (s - mean) ^ 2) 0 similarities
                            / real (length similarities);
               std = sqrt variance
           in if std = 0 then map (\<lambda>s. 1 / real (length similarities)) similarities
              else map (\<lambda>s. (s - mean) / std) similarities)
      | none \<Rightarrow> similarities)"

text \<open>
  The softmax on finite similarities and a temperature other than zero. On the empty
  array \<^verbatim>\<open>Math.max()\<close> is \<^verbatim>\<open>-Infinity\<close>, \<^verbatim>\<open>exps\<close> is empty and the result is the empty
  array.
\<close>

definition similaritiesToDistribution ::
  "real list \<Rightarrow> real \<Rightarrow> SimilarityNormalization \<Rightarrow> real list"
where
  "similaritiesToDistribution similarities temperature normalization =
     (let normalized = normalizeSimilarities similarities normalization;
          scaled = map (\<lambda>s. s / temperature) normalized
      in if scaled = [] then []
         else (let maxVal = Math_max scaled;
                   exps = map (\<lambda>s. exp (s - maxVal)) scaled;
                   sumExps = foldl (+) 0 exps
               in map (\<lambda>e. e / sumExps) exps))"

definition distributionToRating :: "real list \<Rightarrow> int \<Rightarrow> int" where
  "distributionToRating distribution scaleMin =
     Math_round
       (fold (\<lambda>i weightedSum. weightedSum + distribution ! i * (real_of_int scaleMin + real i))
          [0..<length distribution] 0)"


text \<open>
  The closed form of the softmax, used to reason about \<^verbatim>\<open>similaritiesToDistribution\<close>.
\<close>

definition softmax :: "real list \<Rightarrow> real list" where
  "softmax s = map (\<lambda>x. exp (x - Max (set s)) / (\<Sum>y\<leftarrow>s. exp (y - Max (set s)))) s"


text \<open>
  \<^verbatim>\<open>NaN\<close> through \<^verbatim>\<open>similaritiesToDistribution\<close>: when a similarity is \<^verbatim>\<open>NaN\<close>, or the
  temperature is zero and there is a similarity at all, \<^verbatim>\<open>Math.max\<close>, \<^verbatim>\<open>Math.min\<close> or
  the sums are \<^verbatim>\<open>NaN\<close> (or an infinity minus itself), no comparison with \<^verbatim>\<open>===\<close>
  succeeds, and every entry of the result is \<^verbatim>\<open>NaN\<close>. The result has one entry per
  similarity in every case.
\<close>

definition similaritiesToDistribution_nan ::
  "real option list \<Rightarrow> real \<Rightarrow> SimilarityNormalization \<Rightarrow> real option list"
where
  "similaritiesToDistribution_nan similarities temperature normalization =
     (if None \<in> set similarities \<or> temperature = 0
      then map (\<lambda>s. None) similarities
      else map Some (similaritiesToDistribution (map the similarities) temperature normalization))"

datatype error = InvalidInput | InsufficientData

text \<open>
  The scorer as its callers run it: \<^verbatim>\<open>computeSimilarities\<close> followed by
  \<^verbatim>\<open>similaritiesToDistribution\<close>. Neither function has a \<^verbatim>\<open>throw\<close> or a check of its
  arguments, so the outcome is a returned array on every path.
\<close>

definition scoreSimilarities ::
  "real list \<Rightarrow> real list list \<Rightarrow> real \<Rightarrow> SimilarityNormalization \<Rightarrow> error + real option list"
where
  "scoreSimilarities responseVec anchorVecs temperature normalization =
     Inr (similaritiesToDistribution_nan (computeSimilarities responseVec anchorVecs)
            temperature normalization)"

section \<open>The anchor resolver (scale-anchors.ts)\<close>

subsection \<open>Strings\<close>

text \<open>
  Labels and question texts are ASCII strings. \<^verbatim>\<open>toLowerCase\<close> maps \<open>A\<close> to \<open>Z\<close> to
  lower case, \<^verbatim>\<open>trim\<close> removes white space at both ends, \<^verbatim>\<open>includes\<close> is the substring
  test.
\<close>

definition toLowerCase :: "string \<Rightarrow> string" where
  "toLowerCase s =
     map (\<lambda>c. if 65 \<le> (of_char c :: nat) \<and> (of_char c :: nat) \<le> 90
              then char_of ((of_char c :: nat) + 32) else c) s"

definition isWhiteSpace :: "char \<Rightarrow> bool" where
  "isWhiteSpace c = ((of_char c :: nat) \<in> {9, 10, 11, 12, 13, 32})"

definition trim :: "string \<Rightarrow> string" where
  "trim s = rev (dropWhile isWhiteSpace (rev (dropWhile isWhiteSpace s)))"

definition string_includes :: "string \<Rightarrow> string \<Rightarrow> bool" where
  "string_includes s pattern = sublist pattern s"

definition stripIntensifier :: "string \<Rightarrow> string" where
  \<comment> \<open>\<^verbatim>\<open>s.replace(/^(very |extremely )/, "")\<close>\<close>
  "stripIntensifier s =
     (if prefix ''very '' s then drop 5 s
      else if prefix ''extremely '' s then drop 10 s
      else s)"

subsection \<open>Types\<close>

datatype QuestionType =
  likert | nps | multiple_choice | ranking | open_ended | matrix | slider
  | image_rating | image_choice | image_comparison

record ScaleAnchorLabels =
  low :: string
  high :: string

text \<open>The fields of \<^verbatim>\<open>SurveyQuestion\<close> that \<^verbatim>\<open>resolveAnchors\<close> reads.\<close>

record SurveyQuestion =
  q_type :: QuestionType
  q_text :: string
  q_scaleMin :: "int option"
  q_scaleMax :: "int option"
  q_scaleAnchors :: "ScaleAnchorLabels option"

record ScaleAnchorSet =
  semantic :: string
  anchors :: "string list"
  scaleMin :: int
  scaleMax :: int

record AnchorTemplate =
  anchors5 :: "string list"
  anchors7 :: "string list option"
  anchors11 :: "string list option"

subsection \<open>Predefined anchor templates\<close>

definition agreement_anchors5 :: "string list" where
  "agreement_anchors5 = [
     ''Completely wrong. I strongly disagree, this doesn't match reality at all and I reject this statement.'',
     ''I don't think so. I disagree with this, there are problems and it doesn't seem right to me.'',
     ''Not sure either way. I could see arguments for and against, I don't have a strong opinion on this.'',
     ''I think so, mostly. I agree that this is about right, with maybe a few minor exceptions.'',
     ''Absolutely right. I completely agree, this is exactly correct and perfectly describes the situation.'']"

definition agreement_anchors7 :: "string list" where
  "agreement_anchors7 = [
     ''I strongly disagree. This is completely contrary to my views.'',
     ''I disagree. I don't think this is accurate.'',
     ''I slightly disagree. I have some reservations about this.'',
     ''I neither agree nor disagree. I'm neutral on this.'',
     ''I slightly agree. I'm somewhat inclined to agree.'',
     ''I agree. I think this is mostly correct.'',
     ''I strongly agree. This is absolutely right.'']"

definition satisfaction_anchors5 :: "string list" where
  "satisfaction_anchors5 = [
     ''Terrible. I was frustrated and angry the entire time, nothing worked right and I regret using this.'',
     ''Not great. I ran into problems and it was harder than it should have been, below what I expected.'',
     ''It was okay. Nothing special, not bad but not good either. Pretty average and forgettable.'',
     ''Pretty good. Things went smoothly for the most part, just a couple of small things that could be better.'',
     ''Excellent. Everything was smooth, fast, and easy. I'm really impressed and delighted with the result.'']"

definition likelihood_anchors5 :: "string list" where
  "likelihood_anchors5 = [
     ''No, I definitely won't. I had a bad experience and I have no intention of doing this again. I'll go elsewhere.'',
     ''Probably not. It wasn't great and I have better options available. I'd need a strong reason to come back.'',
     ''Maybe, maybe not. It depends on the circumstances and what's available. I don't feel strongly either way.'',
     ''Yeah, I probably will. It was decent enough and fairly convenient. I'd come back if the opportunity arises.'',
     ''Absolutely, I definitely will. I had a great experience and I'm already looking forward to doing this again soon.'']"

definition ease_anchors5 :: "string list" where
  "ease_anchors5 = [
     ''Incredibly frustrating. I kept getting stuck and couldn't figure out what to do next. It felt like fighting the system every step of the way.'',
     ''Kind of a hassle. I ran into a couple of confusing parts and had to stop and think more than I should have. Not the smoothest experience.'',
     ''It was fine, I guess. Not particularly hard but not effortless either. I got through it without too much trouble.'',
     ''Pretty straightforward. I figured things out quickly and only paused once or twice. Most of it just made sense right away.'',
     ''Couldn't have been simpler. Everything was obvious and intuitive, I breezed through the whole thing without a second thought.'']"

definition importance_anchors5 :: "string list" where
  "importance_anchors5 = [
     ''Couldn't care less about this. It has zero impact on my life and I wouldn't even notice if it disappeared tomorrow.'',
     ''It's on my radar but barely. There are way bigger things I worry about, this is pretty low on my priority list.'',
     ''It matters somewhat. I'd pay attention to it but it's not something that keeps me up at night or changes my decisions.'',
     ''This is a big deal to me. I think about it regularly and it genuinely affects my choices and how I go about things.'',
     ''This is absolutely essential. I can't imagine doing without it, it's one of the most important things in my life right now.'']"

definition familiarity_anchors5 :: "string list" where
  "familiarity_anchors5 = [
     ''Never heard of it. This is completely new to me, I have no idea what it is or what it does. Drawing a total blank.'',
     ''I've seen the name around but that's about it. I couldn't really tell you much about it beyond the most surface-level stuff.'',
     ''I know the basics. I've come across it enough to have a general sense of what it's about, but I'm no expert by any means.'',
     ''I know it pretty well. I've used it or dealt with it enough times that I'm comfortable with it and could explain it to someone.'',
     ''I know this inside and out. I use it all the time, I could talk about it in detail, and people come to me with questions about it.'']"

definition appeal_anchors5 :: "string list" where
  "appeal_anchors5 = [
     ''Hard pass. Nothing about this interests me at all. I scrolled right past it and wouldn't give it a second look.'',
     ''Eh, it's okay I guess. There's maybe one small thing that caught my eye, but overall it's not really for me.'',
     ''It's interesting enough. I can see why people would like it, and I might check it out if the timing was right.'',
     ''Yeah, this is really appealing. I'm drawn to it and I'd actively look into it more. It's got my attention for sure.'',
     ''I absolutely love this. I'm excited just thinking about it, this is exactly my kind of thing and I want it now.'']"

definition value_anchors5 :: "string list" where
  "value_anchors5 = [
     ''Total rip-off. I feel cheated paying this much for what you actually get. Completely overpriced and not worth a fraction of the cost.'',
     ''Not great value. It feels a bit expensive for what it is. I'd expect more features or better quality at this price point.'',
     ''Fair enough for the price. You get what you pay for, nothing more and nothing less. It's reasonable but not a bargain.'',
     ''Good value for the money. I feel like I'm getting a solid deal here. The quality and features justify the price and then some.'',
     ''Incredible deal. I can't believe how much you get for this price. It's an absolute steal and I'd happily pay more for it.'']"

definition trust_anchors5 :: "string list" where
  "trust_anchors5 = [
     ''I don't trust this one bit. Something feels off and I'd be very careful sharing any personal information or relying on it for anything important.'',
     ''I'm a little skeptical. There are some red flags that make me uneasy. I'd proceed with caution and double-check things independently.'',
     ''I'm on the fence. I don't have a strong reason to trust or distrust it. I'd give it a chance but I'm keeping my guard up.'',
     ''I trust it for the most part. It seems reliable and legitimate. I'd feel comfortable using it without worrying too much.'',
     ''I trust this completely. It has a solid track record and I'd feel totally comfortable recommending it and relying on it for important things.'']"

definition quality_anchors5 :: "string list" where
  "quality_anchors5 = [
     ''Terrible quality. It feels cheap, flimsy, and poorly made. I'm honestly surprised this passed any kind of quality check. Not acceptable at all.'',
     ''Below average quality. There are some noticeable issues like rough edges or inconsistent finish. It works but you can tell corners were cut.'',
     ''Decent quality overall. Nothing wrong with it but nothing that wows me either. It does what it's supposed to do, standard stuff.'',
     ''Really good quality. Well-made, solid feel, and clearly some thought went into the details. I'm impressed with the craftsmanship.'',
     ''Outstanding quality. Premium feel in every way, this is clearly best-in-class. The attention to detail and materials are top-notch.'']"

definition frequency_anchors5 :: "string list" where
  "frequency_anchors5 = [
     ''Never, not once. This just isn't something that's part of my routine at all. I can't remember the last time I did this, if ever.'',
     ''Hardly ever. Maybe once in a blue moon if the stars align. It's rare enough that it barely registers as something I do.'',
     ''Every now and then. I do it occasionally when the situation calls for it, but it's not a regular habit. Maybe a few times a month.'',
     ''Pretty regularly. It's part of my routine at this point. I do it multiple times a week and it feels natural and habitual.'',
     ''All the time, practically every day. I can't imagine not doing this, it's completely woven into my daily life at this point.'']"

definition uniqueness_anchors5 :: "string list" where
  "uniqueness_anchors5 = [
     ''Nothing special about this at all. It's basically a copy of what's already out there. I've seen this exact same thing a dozen times before.'',
     ''Mostly the same as other options. There might be a small twist here or there but nothing that really sets it apart in a meaningful way.'',
     ''It has some distinctive qualities. A few things about it feel fresh or different, though the core concept isn't entirely new.'',
     ''This really stands out from the crowd. It has a clear identity and does things differently enough that I'd remember it and point it out to others.'',
     ''Truly one of a kind. I've never seen anything quite like this before. It's so original and different that it feels like it created its own category.'']"

definition relevance_anchors5 :: "string list" where
  "relevance_anchors5 = [
     ''This has nothing to do with me. It's completely off-base for my situation and I can't see any connection to what I actually need.'',
     ''Tangentially related at best. There's a loose connection but it doesn't really address what I'm looking for in any meaningful way.'',
     ''Somewhat relevant. Parts of it apply to my situation and I can see some usefulness, but it's not exactly what I had in mind.'',
     ''Very relevant to what I need. It closely aligns with my situation and addresses most of the things I'm actually looking for.'',
     ''Spot on, exactly what I was looking for. This fits my needs perfectly and I feel like it was made specifically for my situation.'']"

definition impression_anchors5 :: "string list" where
  "impression_anchors5 = [
     ''Awful first impression. Everything about it rubs me the wrong way and I came away feeling really negative. Not a fan at all.'',
     ''Not a great impression. A few things turned me off and I have some real concerns. I'd need convincing to give it another chance.'',
     ''My impression is neutral. I don't feel strongly one way or the other. It didn't wow me but it didn't put me off either.'',
     ''Good impression overall. I came away feeling positive and optimistic about it. There's a lot to like and I'm interested to see more.'',
     ''Absolutely fantastic impression. I'm blown away by everything I've seen. This exceeded all my expectations and I'm genuinely enthusiastic.'']"

definition purchase_intent_anchors5 :: "string list" where
  "purchase_intent_anchors5 = [
     ''No chance I'm buying this. It's not for me at all and I'd never spend my money on it. I'd walk right past it every time.'',
     ''Probably not going to buy it. I'm not very interested and there are better ways I could spend my money. It'd take a lot to convince me.'',
     ''I might buy it, I might not. I'm on the fence. If the price was right or someone recommended it, I could see myself picking it up.'',
     ''Yeah, I'd probably buy this. It looks good and fits what I'm looking for. I can see myself pulling the trigger on this pretty soon.'',
     ''I'm buying this for sure. Take my money right now. This is exactly what I've been looking for and I don't need any more convincing.'']"

definition nps_anchors5 :: "string list" where
  "nps_anchors5 = []"

definition nps_anchors11 :: "string list" where
  "nps_anchors11 = [
     ''I would never recommend this. Terrible experience. Score: 0 out of 10.'',
     ''I would strongly advise against this. Very poor experience. Score: 1 out of 10.'',
     ''I am very unlikely to recommend this. Poor experience. Score: 2 out of 10.'',
     ''I would probably not recommend this. Below average experience. Score: 3 out of 10.'',
     ''I would hesitate to recommend this. Mediocre experience. Score: 4 out of 10.'',
     ''I am neutral about recommending this. Average experience. Score: 5 out of 10.'',
     ''I might recommend this in some cases. Slightly above average. Score: 6 out of 10.'',
     ''I would likely recommend this. Good experience overall. Score: 7 out of 10.'',
     ''I would recommend this. Very good experience. Score: 8 out of 10.'',
     ''I would strongly recommend this. Excellent experience. Score: 9 out of 10.'',
     ''I would enthusiastically recommend this to everyone. Outstanding. Score: 10 out of 10.'']"

definition TEMPLATES :: "(string \<times> AnchorTemplate) list" where
  "TEMPLATES = [
     (''agreement'', \<lparr>anchors5 = agreement_anchors5, anchors7 = Some agreement_anchors7, anchors11 = None\<rparr>),
     (''satisfaction'', \<lparr>anchors5 = satisfaction_anchors5, anchors7 = None, anchors11 = None\<rparr>),
     (''likelihood'', \<lparr>anchors5 = likelihood_anchors5, anchors7 = None, anchors11 = None\<rparr>),
     (''ease'', \<lparr>anchors5 = ease_anchors5, anchors7 = None, anchors11 = None\<rparr>),
     (''importance'', \<lparr>anchors5 = importance_anchors5, anchors7 = None, anchors11 = None\<rparr>),
     (''familiarity'', \<lparr>anchors5 = familiarity_anchors5, anchors7 = None, anchors11 = None\<rparr>),
     (''appeal'', \<lparr>anchors5 = appeal_anchors5, anchors7 = None, anchors11 = None\<rparr>),
     (''value'', \<lparr>anchors5 = value_anchors5, anchors7 = None, anchors11 = None\<rparr>),
     (''trust'', \<lparr>anchors5 = trust_anchors5, anchors7 = None, anchors11 = None\<rparr>),
     (''quality'', \<lparr>anchors5 = quality_anchors5, anchors7 = None, anchors11 = None\<rparr>),
     (''frequency'', \<lparr>anchors5 = frequency_anchors5, anchors7 = None, anchors11 = None\<rparr>),
     (''uniqueness'', \<lparr>anchors5 = uniqueness_anchors5, anchors7 = None, anchors11 = None\<rparr>),
     (''relevance'', \<lparr>anchors5 = relevance_anchors5, anchors7 = None, anchors11 = None\<rparr>),
     (''impression'', \<lparr>anchors5 = impression_anchors5, anchors7 = None, anchors11 = None\<rparr>),
     (''purchase_intent'', \<lparr>anchors5 = purchase_intent_anchors5, anchors7 = None, anchors11 = None\<rparr>),
     (''nps'', \<lparr>anchors5 = nps_anchors5, anchors7 = None, anchors11 = Some nps_anchors11\<rparr>)]"

definition LABEL_TO_SEMANTIC :: "(string \<times> string) list" where
  "LABEL_TO_SEMANTIC = [
     (''very dissatisfied'', ''satisfaction''),
     (''very satisfied'', ''satisfaction''),
     (''extremely dissatisfied'', ''satisfaction''),
     (''extremely satisfied'', ''satisfaction''),
     (''strongly disagree'', ''agreement''),
     (''strongly agree'', ''agreement''),
     (''very unlikely'', ''likelihood''),
     (''very likely'', ''likelihood''),
     (''extremely unlikely'', ''likelihood''),
     (''extremely likely'', ''likelihood''),
     (''not at all likely'', ''likelihood''),
     (''very difficult'', ''ease''),
     (''very easy'', ''ease''),
     (''not important'', ''importance''),
     (''not important at all'', ''importance''),
     (''very important'', ''importance''),
     (''extremely important'', ''importance''),
     (''not at all familiar'', ''familiarity''),
     (''extremely familiar'', ''familiarity''),
     (''not at all appealing'', ''appeal''),
     (''extremely appealing'', ''appeal''),
     (''not appealing'', ''appeal''),
     (''very appealing'', ''appeal''),
     (''very poor value'', ''value''),
     (''excellent value'', ''value''),
     (''not at all'', ''trust''),
     (''completely'', ''trust''),
     (''very poor'', ''quality''),
     (''excellent'', ''quality''),
     (''very negative'', ''impression''),
     (''very positive'', ''impression''),
     (''definitely would not'', ''purchase_intent''),
     (''definitely would'', ''purchase_intent''),
     (''not at all unique'', ''uniqueness''),
     (''extremely unique'', ''uniqueness''),
     (''not at all relevant'', ''relevance''),
     (''extremely relevant'', ''relevance'')]"

text \<open>
  \<^verbatim>\<open>LABEL_TO_SEMANTIC[key]\<close> also finds what a plain object inherits: the keys
  \<^verbatim>\<open>constructor\<close> and \<^verbatim>\<open>__proto__\<close> (the inherited names without an upper-case letter)
  give a function and an object. Both are truthy and are returned as the family; as a key
  of \<^verbatim>\<open>TEMPLATES\<close> they become the strings below, which name no template.
\<close>

definition LABEL_TO_SEMANTIC_get :: "string \<Rightarrow> string option" where
  "LABEL_TO_SEMANTIC_get key =
     (if key = ''constructor'' then Some ''function Object() { [native code] }''
      else if key = ''__proto__'' then Some ''[object Object]''
      else map_of LABEL_TO_SEMANTIC key)"

subsection \<open>Internal helpers\<close>

definition detectSemanticFromLabels :: "string \<Rightarrow> string \<Rightarrow> string option" where
  "detectSemanticFromLabels lo hi =
     (let lowNorm = trim (toLowerCase lo);
          highNorm = trim (toLowerCase hi)
      in case LABEL_TO_SEMANTIC_get lowNorm of
           Some fromLow \<Rightarrow> Some fromLow
         | None \<Rightarrow>
            (case LABEL_TO_SEMANTIC_get highNorm of
               Some fromHigh \<Rightarrow> Some fromHigh
             | None \<Rightarrow>
                map_option snd
                  (find (\<lambda>(pattern, sem). string_includes lowNorm pattern \<or> string_includes highNorm pattern)
                     LABEL_TO_SEMANTIC)))"

definition inferSemanticFromText :: "string \<Rightarrow> string option" where
  "inferSemanticFromText txt =
     (let lower = toLowerCase txt in
      if string_includes lower ''satisfi'' then Some ''satisfaction''
      else if string_includes lower ''agree'' \<or> string_includes lower ''disagree'' then Some ''agreement''
      else if string_includes lower ''likely'' \<or> string_includes lower ''likelihood''
              \<or> string_includes lower ''probability'' then Some ''likelihood''
      else if string_includes lower ''easy'' \<or> string_includes lower ''difficult'' \<or> string_includes lower ''ease''
        then Some ''ease''
      else if string_includes lower ''important'' \<or> string_includes lower ''importance'' then Some ''importance''
      else if string_includes lower ''familiar'' then Some ''familiarity''
      else if string_includes lower ''appeal'' then Some ''appeal''
      else if string_includes lower ''value'' \<and> string_includes lower ''money'' then Some ''value''
      else if string_includes lower ''trust'' then Some ''trust''
      else if string_includes lower ''quality'' then Some ''quality''
      else if string_includes lower ''unique'' \<or> string_includes lower ''different'' then Some ''uniqueness''
      else if string_includes lower ''relevant'' \<or> string_includes lower ''relevance'' then Some ''relevance''
      else if string_includes lower ''impression'' \<or> string_includes lower ''overall'' then Some ''impression''
      else if string_includes lower ''purchase'' \<or> string_includes lower ''buy'' then Some ''purchase_intent''
      else if string_includes lower ''recommend'' then Some ''nps''
      else if string_includes lower ''often'' \<or> string_includes lower ''frequently''
              \<or> string_includes lower ''how often'' then Some ''frequency''
      else None)"

definition interpolateFromTemplate :: "string list \<Rightarrow> int \<Rightarrow> string list" where
  "interpolateFromTemplate source5 targetSize =
     (if targetSize = 5 then source5
      else if targetSize \<le> 1 then [source5 ! 2]
      else map (\<lambda>i. let ratio = real i / real_of_int (targetSize - 1);
                       srcIdx = ratio * 4;
                       nearestIdx = Math_round srcIdx
                   in source5 ! nat nearestIdx)
             [0..<nat targetSize])"

definition getAnchorsForSize :: "string \<Rightarrow> int \<Rightarrow> string list option" where
  "getAnchorsForSize sem sz =
     (case map_of TEMPLATES sem of
        None \<Rightarrow> None
      | Some template \<Rightarrow>
          if sz = 11 \<and> anchors11 template \<noteq> None then anchors11 template
          else if sz = 7 \<and> anchors7 template \<noteq> None then anchors7 template
          else if sz = 5 \<and> length (anchors5 template) = 5 then Some (anchors5 template)
          else if length (anchors5 template) = 5 \<and> sz > 0
            then Some (interpolateFromTemplate (anchors5 template) sz)
          else None)"

definition interpolateAnchors :: "string \<Rightarrow> string \<Rightarrow> int \<Rightarrow> string list" where
  "interpolateAnchors lo hi sz =
     (if sz \<le> 1 then [lo @ ''. '' @ hi @ ''.'']
      else if sz = 2 then [lo @ ''.'', hi @ ''.'']
      else map (\<lambda>i. let ratio = real i / real_of_int (sz - 1) in
                   if ratio < 2 / 10
                     then lo @ ''. I feel very '' @ stripIntensifier (toLowerCase lo) @ ''.''
                   else if ratio < 4 / 10
                     then ''Leaning toward '' @ toLowerCase lo @ ''. I somewhat feel this way.''
                   else if ratio < 6 / 10
                     then ''Neither '' @ toLowerCase lo @ '' nor '' @ toLowerCase hi
                            @ ''. I feel neutral.''
                   else if ratio < 8 / 10
                     then ''Leaning toward '' @ toLowerCase hi @ ''. I somewhat feel this way.''
                   else hi @ ''. I feel very '' @ stripIntensifier (toLowerCase hi) @ ''.'')
             [0..<nat sz])"

subsection \<open>Public API\<close>

definition resolveAnchors :: "SurveyQuestion \<Rightarrow> ScaleAnchorSet" where
  "resolveAnchors question =
     (let sMin = (case q_scaleMin question of
                    Some v \<Rightarrow> v | None \<Rightarrow> if q_type question = nps then 0 else 1);
          sMax = (case q_scaleMax question of
                    Some v \<Rightarrow> v | None \<Rightarrow> if q_type question = nps then 10 else 5);
          scaleSize = sMax - sMin + 1;
          fallback =
            (case (case inferSemanticFromText (q_text question) of
                     None \<Rightarrow> None
                   | Some inferred \<Rightarrow>
                       (case getAnchorsForSize inferred scaleSize of
                          None \<Rightarrow> None
                        | Some a \<Rightarrow> Some (inferred, a))) of
               Some (inferred, a) \<Rightarrow>
                 \<lparr>semantic = inferred, anchors = a, scaleMin = sMin, scaleMax = sMax\<rparr>
             | None \<Rightarrow>
                 \<lparr>semantic = ''agreement'',
                  anchors = (case getAnchorsForSize ''agreement'' scaleSize of
                               Some defaultAnchors \<Rightarrow> defaultAnchors
                             | None \<Rightarrow> agreement_anchors5),
                  scaleMin = sMin, scaleMax = sMax\<rparr>)
      in if q_type question = nps
         then \<lparr>semantic = ''nps'', anchors = nps_anchors11, scaleMin = 0, scaleMax = 10\<rparr>
         else
           (case q_scaleAnchors question of
              Some labels \<Rightarrow>
                (case (case detectSemanticFromLabels (low labels) (high labels) of
                         None \<Rightarrow> None
                       | Some sem \<Rightarrow>
                           (case getAnchorsForSize sem scaleSize of
                              None \<Rightarrow> None
                            | Some a \<Rightarrow> Some (sem, a))) of
                   Some (sem, a) \<Rightarrow>
                     \<lparr>semantic = sem, anchors = a, scaleMin = sMin, scaleMax = sMax\<rparr>
                 | None \<Rightarrow>
                     \<lparr>semantic = ''custom'',
                      anchors = interpolateAnchors (low labels) (high labels) scaleSize,
                      scaleMin = sMin, scaleMax = sMax\<rparr>)
            | None \<Rightarrow> fallback))"

text \<open>
  The bounds of a scale definition are the fields \<^verbatim>\<open>scaleMin\<close> and \<^verbatim>\<open>scaleMax\<close> of the
  question or, where a field is absent, the default that \<^verbatim>\<open>resolveAnchors\<close> takes for
  it. A scale definition is valid when its bounds are integers with \<open>min < max\<close> and,
  for the recommendation kind, are the fixed bounds 0 and 10.
\<close>

definition definitionMin :: "SurveyQuestion \<Rightarrow> int" where
  "definitionMin question =
     (case q_scaleMin question of
        Some v \<Rightarrow> v | None \<Rightarrow> if q_type question = nps then 0 else 1)"

definition definitionMax :: "SurveyQuestion \<Rightarrow> int" where
  "definitionMax question =
     (case q_scaleMax question of
        Some v \<Rightarrow> v | None \<Rightarrow> if q_type question = nps then 10 else 5)"

definition validScaleDefinition :: "SurveyQuestion \<Rightarrow> bool" where
  "validScaleDefinition question =
     (definitionMin question < definitionMax question
      \<and> (q_type question = nps \<longrightarrow> definitionMin question = 0 \<and> definitionMax question = 10))"

section \<open>Calibration (cross-validation.ts)\<close>

subsection \<open>Configuration\<close>

definition NORMALIZATION :: SimilarityNormalization where
  "NORMALIZATION = minmax"

definition CANDIDATE_TEMPS :: "real list" where
  "CANDIDATE_TEMPS = [5 / 100, 1 / 10, 15 / 100, 2 / 10, 25 / 100, 3 / 10, 4 / 10, 5 / 10]"

definition BOOTSTRAP_REPEATS :: nat where
  "BOOTSTRAP_REPEATS = 100"

definition BOOTSTRAP_TRAIN_RATIO :: real where
  \<comment> \<open>The literal \<^verbatim>\<open>0.7\<close>: the double nearest to seven tenths.\<close>
  "BOOTSTRAP_TRAIN_RATIO = fl (7 / 10)"

definition SEED :: int where
  "SEED = 42"

subsection \<open>The seeded generator (Mulberry32) and the shuffle\<close>

text \<open>
  The closure of \<^verbatim>\<open>mulberry32\<close> keeps \<^verbatim>\<open>seed\<close>, a number that grows by
  \<^verbatim>\<open>0x6d2b79f5\<close> with every call and is never reduced: an integer, exact while it is
  below \<open>2^53\<close> and rounded to a double above. The bit operations and \<^verbatim>\<open>Math.imul\<close>
  read it modulo \<open>2^32\<close>. The state is passed explicitly: a call takes the seed and
  returns the number drawn, in \<open>[0, 1)\<close>, with the new seed.
\<close>

definition mulberry32 :: "int \<Rightarrow> real \<times> int" where
  "mulberry32 seed =
     (let seed' = \<lfloor>fl (real_of_int seed + 0x6d2b79f5)\<rfloor>;
          t0 = (word_of_int seed' :: 32 word);
          t1 = (t0 XOR drop_bit 15 t0) * (t0 OR 1);
          t2 = t1 XOR (t1 + (t1 XOR drop_bit 7 t1) * (t1 OR 61))
      in (real (unat (t2 XOR drop_bit 14 t2)) / 4294967296, seed'))"

definition seedAfter :: "nat \<Rightarrow> int \<Rightarrow> int" where
  \<comment> \<open>The state of the generator after \<open>k\<close> calls.\<close>
  "seedAfter k seed = ((\<lambda>s. snd (mulberry32 s)) ^^ k) seed"

text \<open>
  \<^verbatim>\<open>shuffle\<close> works on a copy, \<^verbatim>\<open>[...arr]\<close>: the argument is left as it was, here a
  value that the function does not change. The loop runs \<open>i\<close> from the last index
  down to 1 and draws one number for each.
\<close>

fun shuffle_loop :: "nat \<Rightarrow> 'a list \<Rightarrow> int \<Rightarrow> 'a list \<times> int" where
  "shuffle_loop 0 shuffled seed = (shuffled, seed)"
| "shuffle_loop (Suc k) shuffled seed =
     (let (r, seed') = mulberry32 seed;
          i = Suc k;
          j = nat \<lfloor>fl (r * real (i + 1))\<rfloor>
      in shuffle_loop k (shuffled[i := shuffled ! j, j := shuffled ! i]) seed')"

definition shuffle :: "'a list \<Rightarrow> int \<Rightarrow> 'a list \<times> int" where
  "shuffle arr seed = shuffle_loop (length arr - 1) arr seed"

subsection \<open>Evaluation\<close>

text \<open>
  The fields of \<^verbatim>\<open>TestCase\<close> (ground-truth-v2.ts) that the calibration reads, and
  \<^verbatim>\<open>EmbeddedTestCase\<close>, which extends it; \<^verbatim>\<open>anchorVecs\<close> holds the raw similarities
  of the case.
\<close>

record TestCase =
  label :: string
  expected :: int
  domain :: string

record EmbeddedTestCase = TestCase +
  anchorVecs :: "real list"
  tcScaleMin :: int
  tcScaleMax :: int


text \<open>
  On an empty case list the divisions are \<^verbatim>\<open>0 / 0\<close>: \<^verbatim>\<open>mae\<close>, \<^verbatim>\<open>exactPct\<close> and
  \<^verbatim>\<open>withinOnePct\<close> are \<^verbatim>\<open>NaN\<close>, here \<^term>\<open>None\<close>. At temperature zero a case with
  at least one similarity has a \<^verbatim>\<open>NaN\<close> distribution, rating and error: it counts
  neither as exact nor as within one, and \<^verbatim>\<open>totalError\<close> and \<^verbatim>\<open>mae\<close> are \<^verbatim>\<open>NaN\<close>
  from there on.
\<close>

record EvalResult =
  exact :: nat
  withinOne :: nat
  mae :: "real option"
  totalCount :: nat
  exactPct :: "int option"
  withinOnePct :: "int option"

definition evaluate_step ::
  "real \<Rightarrow> EmbeddedTestCase \<Rightarrow> nat \<times> nat \<times> int option \<Rightarrow> nat \<times> nat \<times> int option"
where
  "evaluate_step temperature tc acc =
     (case acc of (exactN, withinOneN, totalError) \<Rightarrow>
        if temperature = 0 \<and> anchorVecs tc \<noteq> [] then (exactN, withinOneN, None)
        else
          (let distribution = similaritiesToDistribution (anchorVecs tc) temperature NORMALIZATION;
               rating = distributionToRating distribution (tcScaleMin tc);
               clamped = min (max rating (tcScaleMin tc)) (tcScaleMax tc);
               err = \<bar>clamped - expected tc\<bar>
           in (if err = 0 then exactN + 1 else exactN,
               if err \<le> 1 then withinOneN + 1 else withinOneN,
               map_option (\<lambda>e. e + err) totalError)))"

definition evaluate :: "EmbeddedTestCase list \<Rightarrow> real \<Rightarrow> EvalResult" where
  "evaluate cases temperature =
     (case fold (evaluate_step temperature) cases (0, 0, Some 0) of
        (exactN, withinOneN, totalError) \<Rightarrow>
          \<lparr>exact = exactN,
           withinOne = withinOneN,
           mae = (case totalError of
                    None \<Rightarrow> None
                  | Some e \<Rightarrow> if cases = [] then None
                             else Some (real_of_int e / real (length cases))),
           totalCount = length cases,
           exactPct = (if cases = [] then None
                       else Some (Math_round (real exactN / real (length cases) * 100))),
           withinOnePct = (if cases = [] then None
                           else Some (Math_round (real withinOneN / real (length cases) * 100)))\<rparr>)"

definition js_less :: "real option \<Rightarrow> real option \<Rightarrow> bool" where
  \<comment> \<open>\<^verbatim>\<open>a < b\<close> on numbers: false when either is \<^verbatim>\<open>NaN\<close>.\<close>
  "js_less a b = (case (a, b) of (Some x, Some y) \<Rightarrow> x < y | _ \<Rightarrow> False)"

fun findBestLoop ::
  "EmbeddedTestCase list \<Rightarrow> real list \<Rightarrow> real \<times> EvalResult \<Rightarrow> real \<times> EvalResult"
where
  "findBestLoop trainCases [] best = best"
| "findBestLoop trainCases (temp # temps) (bestTemp, bestResult) =
     (let result = evaluate trainCases temp
      in if exact result > exact bestResult
            \<or> (exact result = exact bestResult \<and> js_less (mae result) (mae bestResult))
         then findBestLoop trainCases temps (temp, result)
         else findBestLoop trainCases temps (bestTemp, bestResult))"

fun findBestTempFrom :: "real list \<Rightarrow> EmbeddedTestCase list \<Rightarrow> real \<times> EvalResult" where
  \<comment> \<open>\<^verbatim>\<open>findBestTemp\<close> with the candidate list as an argument.\<close>
  "findBestTempFrom (first # others) trainCases =
     findBestLoop trainCases others (first, evaluate trainCases first)"

definition findBestTemp :: "EmbeddedTestCase list \<Rightarrow> real \<times> EvalResult" where
  "findBestTemp trainCases = findBestTempFrom CANDIDATE_TEMPS trainCases"

subsection \<open>Leave-one-domain-out\<close>





subsection \<open>Bootstrap\<close>

text \<open>
  \<^verbatim>\<open>arr.sort((a, b) => a - b)\<close>: a stable sort into ascending order. A comparison with
  \<^verbatim>\<open>NaN\<close> counts as equal; the lists sorted here hold no \<^verbatim>\<open>NaN\<close> or nothing else.
\<close>

fun js_insort :: "real option \<Rightarrow> real option list \<Rightarrow> real option list" where
  "js_insort x [] = [x]"
| "js_insort x (y # ys) = (if js_less y x then y # js_insort x ys else x # y # ys)"

definition js_sort :: "real option list \<Rightarrow> real option list" where
  "js_sort xs = foldr js_insort xs []"

text \<open>
  The first statements of the loop body: the shuffle of (a copy of) the input, the
  split index \<^verbatim>\<open>Math.floor(shuffled.length * BOOTSTRAP_TRAIN_RATIO)\<close>, a product of
  doubles, and the two slices. The generator is shared by the repeats, so its state is
  returned.
\<close>

definition bootstrapSplit ::
  "EmbeddedTestCase list \<Rightarrow> int \<Rightarrow> (EmbeddedTestCase list \<times> EmbeddedTestCase list) \<times> int"
where
  "bootstrapSplit embedded seed =
     (let (shuffled, seed') = shuffle embedded seed;
          splitIdx = nat \<lfloor>fl (real (length shuffled) * BOOTSTRAP_TRAIN_RATIO)\<rfloor>;
          train = take splitIdx shuffled;
          test = drop splitIdx shuffled
      in ((train, test), seed'))"

record BootstrapResult =
  exactPcts :: "real option list"
  withinOnePcts :: "real option list"
  maes :: "real option list"
  temps :: "real option list"

fun bootstrap_loop ::
  "nat \<Rightarrow> EmbeddedTestCase list \<Rightarrow> int \<Rightarrow> BootstrapResult \<Rightarrow> BootstrapResult"
where
  "bootstrap_loop 0 embedded seed acc = acc"
| "bootstrap_loop (Suc n) embedded seed acc =
     (let ((train, test), seed') = bootstrapSplit embedded seed;
          (temp, trainRes) = findBestTemp train;
          testRes = evaluate test temp
      in bootstrap_loop n embedded seed'
           \<lparr>exactPcts = exactPcts acc @ [map_option real_of_int (exactPct testRes)],
            withinOnePcts = withinOnePcts acc @ [map_option real_of_int (withinOnePct testRes)],
            maes = maes acc @ [mae testRes],
            temps = temps acc @ [Some temp]\<rparr>)"

text \<open>
  The rest of a repeat: the temperature calibrated on the train array and the
  evaluation of the test array at that temperature.
\<close>

definition repeatResult ::
  "EmbeddedTestCase list \<times> EmbeddedTestCase list \<Rightarrow> real \<times> EvalResult"
where
  "repeatResult split =
     (case split of (train, test) \<Rightarrow>
        (let (temp, trainRes) = findBestTemp train;
             testRes = evaluate test temp
         in (temp, testRes)))"

text \<open>
  The train and test arrays of the repeats, in order. They are local to the loop body
  and are not part of what \<^verbatim>\<open>runBootstrap\<close> returns; this function lists them, by the
  same statements.
\<close>

fun bootstrap_assignments ::
  "nat \<Rightarrow> EmbeddedTestCase list \<Rightarrow> int
     \<Rightarrow> (EmbeddedTestCase list \<times> EmbeddedTestCase list) list"
where
  "bootstrap_assignments 0 embedded seed = []"
| "bootstrap_assignments (Suc n) embedded seed =
     (let (split, seed') = bootstrapSplit embedded seed
      in split # bootstrap_assignments n embedded seed')"

text \<open>
  What \<^verbatim>\<open>runBootstrap\<close> returns, with what it prints: for each metric the 95 percent
  interval \<^verbatim>\<open>[sorted[lo], sorted[hi]]\<close>, where \<^verbatim>\<open>lo\<close> and \<^verbatim>\<open>hi\<close> are
  \<^verbatim>\<open>Math.floor(BOOTSTRAP_REPEATS * 0.025)\<close> and \<^verbatim>\<open>Math.floor(BOOTSTRAP_REPEATS * 0.975)\<close>.
\<close>

record BootstrapReport =
  result :: BootstrapResult
  exactInterval :: "real option \<times> real option"
  withinOneInterval :: "real option \<times> real option"
  maeInterval :: "real option \<times> real option"
  tempInterval :: "real option \<times> real option"

definition interval :: "real option list \<Rightarrow> real option \<times> real option" where
  "interval xs =
     (let sorted = js_sort xs;
          lo = nat \<lfloor>fl (real BOOTSTRAP_REPEATS * fl (25 / 1000))\<rfloor>;
          hi = nat \<lfloor>fl (real BOOTSTRAP_REPEATS * fl (975 / 1000))\<rfloor>
      in (sorted ! lo, sorted ! hi))"

definition runBootstrapFrom :: "int \<Rightarrow> EmbeddedTestCase list \<Rightarrow> BootstrapReport" where
  \<comment> \<open>\<^verbatim>\<open>runBootstrap\<close> with the seed as an argument.\<close>
  "runBootstrapFrom seed embedded =
     (let r = bootstrap_loop BOOTSTRAP_REPEATS embedded seed
                \<lparr>exactPcts = [], withinOnePcts = [], maes = [], temps = []\<rparr>
      in \<lparr>result = r,
          exactInterval = interval (exactPcts r),
          withinOneInterval = interval (withinOnePcts r),
          maeInterval = interval (maes r),
          tempInterval = interval (temps r)\<rparr>)"

definition runBootstrap :: "EmbeddedTestCase list \<Rightarrow> BootstrapReport" where
  "runBootstrap embedded = runBootstrapFrom SEED embedded"

section \<open>Facts about the rounding\<close>

lemma round_ties_even_of_int: "round_ties_even (real_of_int k) = k"
  by (simp add: round_ties_even_def)

lemma round_ties_even_error: "\<bar>real_of_int (round_ties_even q) - q\<bar> \<le> 1 / 2"
  unfolding round_ties_even_def Let_def by (auto; linarith)

lemma ulp_pos: "0 < ulp x"
  by (simp add: ulp_def)

lemma floor_log2_eq:
  assumes "2 powr real_of_int e \<le> x" and "x < 2 powr real_of_int (e + 1)"
  shows "\<lfloor>log 2 x\<rfloor> = e"
proof -
  have "0 < 2 powr real_of_int e" by simp
  with assms(1) have pos: "0 < x" by linarith
  have "real_of_int e \<le> log 2 x" using assms(1) pos by (simp add: le_log_iff)
  moreover have "log 2 x < real_of_int (e + 1)" using assms(2) pos by (simp add: log_less_iff)
  ultimately show ?thesis by (simp add: floor_eq_iff)
qed

lemma fl_eq:
  assumes "2 powr real_of_int e \<le> \<bar>x\<bar>" and "\<bar>x\<bar> < 2 powr real_of_int (e + 1)"
    and "- 1022 \<le> e"
  shows "fl x = real_of_int (round_ties_even (x / 2 powr real_of_int (e - 52)))
                  * 2 powr real_of_int (e - 52)"
  using floor_log2_eq [OF assms(1,2)] assms(3) by (simp add: fl_def ulp_def max_def)

lemma fl_of_int:
  assumes "\<bar>n\<bar> < 2 ^ 53"
  shows "fl (real_of_int n) = real_of_int n"
proof (cases "n = 0")
  case True
  then show ?thesis by (simp add: fl_def round_ties_even_def)
next
  case False
  define x where "x = \<bar>real_of_int n\<bar>"
  define e where "e = \<lfloor>log 2 x\<rfloor>"
  have x1: "1 \<le> x" using False by (simp add: x_def)
  have "real_of_int \<bar>n\<bar> < real_of_int (2 ^ 53)" using assms by (simp only: of_int_less_iff)
  then have x53: "x < 2 ^ 53" by (simp add: x_def)
  have "0 \<le> log 2 x" using x1 by simp
  then have e0: "0 \<le> e" by (simp add: e_def)
  have "log 2 x < 53" using x1 x53 by (subst log_less_iff) simp_all
  then have e52: "e \<le> 52" by (simp add: e_def floor_le_iff)
  define m where "m = nat (52 - e)"
  have u: "ulp (real_of_int n) = 1 / 2 ^ m"
  proof -
    have "ulp (real_of_int n) = 2 powr real_of_int (e - 52)"
      using e0 by (simp add: ulp_def e_def x_def max_def)
    also have "real_of_int (e - 52) = - real m" using e52 by (simp add: m_def)
    also have "2 powr (- real m) = 1 / 2 ^ m" by (simp add: powr_minus powr_realpow divide_simps)
    finally show ?thesis .
  qed
  have "real_of_int n / ulp (real_of_int n) = real_of_int (n * 2 ^ m)" by (simp add: u)
  then have "fl (real_of_int n) = real_of_int (n * 2 ^ m) * (1 / 2 ^ m)"
    by (simp only: fl_def round_ties_even_of_int u)
  then show ?thesis by simp
qed

text \<open>
  The error of one rounding: half a unit in the last place, which is at most
  \<open>2^(-53) |x|\<close> in the normal range and \<open>2^(-1075)\<close> in the subnormal range.
\<close>

lemma fl_error: "\<bar>fl x - x\<bar> \<le> \<bar>x\<bar> / 2 ^ 53 + 1 / 2 ^ 1075"
proof -
  define u where "u = ulp x"
  have u0: "0 < u" unfolding u_def by (rule ulp_pos)
  have "fl x - x = (real_of_int (round_ties_even (x / u)) - x / u) * u"
    using u0 by (simp add: fl_def u_def algebra_simps)
  then have "\<bar>fl x - x\<bar> = \<bar>real_of_int (round_ties_even (x / u)) - x / u\<bar> * u"
    using u0 by (simp add: abs_mult)
  also have "\<dots> \<le> 1 / 2 * u"
    using round_ties_even_error [of "x / u"] u0 by (intro mult_right_mono) simp_all
  finally have half: "\<bar>fl x - x\<bar> \<le> u / 2" by simp
  define e where "e = \<lfloor>log 2 \<bar>x\<bar>\<rfloor>"
  show ?thesis
  proof (cases "- 1022 \<le> e \<and> x \<noteq> 0")
    case True
    then have "max \<lfloor>log 2 \<bar>x\<bar>\<rfloor> (- 1022) = e" unfolding e_def by (rule_tac max_absorb1) simp
    then have ue: "u = 2 powr real_of_int (e - 52)" by (simp only: u_def ulp_def)
    have "real_of_int e \<le> log 2 \<bar>x\<bar>" unfolding e_def by simp
    then have "2 powr real_of_int e \<le> \<bar>x\<bar>" using True by (simp add: le_log_iff)
    moreover have "2 powr real_of_int (e - 52) = 2 powr real_of_int e / 2 ^ 52"
      by (simp add: powr_diff powr_numeral)
    ultimately have "u / 2 \<le> \<bar>x\<bar> / 2 ^ 53" unfolding ue by (simp add: divide_simps)
    with half show ?thesis by (smt (verit) zero_less_power divide_pos_pos)
  next
    case False
    then consider "x = 0" | "e < - 1022" by linarith
    then show ?thesis
    proof cases
      case 1
      then show ?thesis by (simp add: fl_def round_ties_even_def)
    next
      case 2
      then have "max \<lfloor>log 2 \<bar>x\<bar>\<rfloor> (- 1022) = - 1022" unfolding e_def by (rule_tac max_absorb2) simp
      then have "u = 2 powr real_of_int (- 1022 - 52)" by (simp only: u_def ulp_def)
      then have "u = 2 powr real_of_int (- 1074)" by simp
      also have "\<dots> = 1 / 2 ^ 1074" by (simp add: powr_minus powr_numeral divide_simps)
      finally have "u / 2 = 1 / 2 ^ 1075" by simp
      with half have "\<bar>fl x - x\<bar> \<le> 1 / 2 ^ 1075" by simp
      moreover have "0 \<le> \<bar>x\<bar> / 2 ^ 53" by simp
      ultimately show ?thesis by linarith
    qed
  qed
qed

section \<open>Facts about the softmax\<close>

lemma foldl_plus_sum_list: "foldl (+) a xs = a + sum_list (xs :: real list)"
  by (induction xs arbitrary: a) simp_all

lemma foldl_max_Max: "foldl max x xs = Max (set (x # xs :: real list))"
proof (induction xs arbitrary: x)
  case Nil
  then show ?case by simp
next
  case (Cons y ys)
  have "foldl max x (y # ys) = Max (set (max x y # ys))" by (simp add: Cons)
  also have "\<dots> = Max (set (x # y # ys))"
    by (cases "ys = []") (simp_all add: max.assoc)
  finally show ?case .
qed


lemma Math_max_Max: "xs \<noteq> [] \<Longrightarrow> Math_max xs = Max (set xs)"
  by (cases xs) (simp_all only: Math_max.simps foldl_max_Max list.distinct)


lemma length_normalizeSimilarities [simp]:
  "length (normalizeSimilarities xs m) = length xs"
  by (cases m) (simp_all add: normalizeSimilarities_def Let_def)

lemma normalizeSimilarities_Nil [simp]:
  "(normalizeSimilarities xs m = []) = (xs = [])"
  by (metis length_0_conv length_normalizeSimilarities)

lemma similaritiesToDistribution_softmax:
  "similaritiesToDistribution xs t m =
     (if xs = [] then [] else softmax (map (\<lambda>s. s / t) (normalizeSimilarities xs m)))"
proof (cases "xs = []")
  case True
  then show ?thesis by (simp add: similaritiesToDistribution_def normalizeSimilarities_def)
next
  case False
  then have ne: "map (\<lambda>s. s / t) (normalizeSimilarities xs m) \<noteq> []"
    by (metis length_0_conv length_map length_normalizeSimilarities)
  show ?thesis
    using False ne
    by (simp add: similaritiesToDistribution_def Let_def softmax_def Math_max_Max
        foldl_plus_sum_list comp_def)
qed

lemma softmax_sum_pos: "s \<noteq> [] \<Longrightarrow> 0 < (\<Sum>y\<leftarrow>s. exp (y - c :: real))"
  by (cases s) (auto intro!: add_pos_nonneg sum_list_nonneg)

lemma softmax_length [simp]: "length (softmax s) = length s"
  by (simp add: softmax_def)


lemma softmax_sum: "s \<noteq> [] \<Longrightarrow> sum_list (softmax s) = 1"
proof -
  assume ne: "s \<noteq> []"
  let ?c = "\<Sum>y\<leftarrow>s. exp (y - Max (set s))"
  have "sum_list (softmax s) = (\<Sum>x\<leftarrow>s. exp (x - Max (set s)) * inverse ?c)"
    by (simp add: softmax_def comp_def divide_inverse)
  also have "\<dots> = ?c * inverse ?c" by (simp only: sum_list_mult_const)
  also have "\<dots> = 1" using softmax_sum_pos [OF ne, of "Max (set s)"] by simp
  finally show ?thesis .
qed

lemma distribution_sums_to_one:
  "similarities \<noteq> [] \<Longrightarrow> sum_list (similaritiesToDistribution similarities t m) = 1"
  by (simp add: similaritiesToDistribution_softmax softmax_sum)



section \<open>Facts about the rating reduction\<close>








section \<open>Five equal similarities\<close>






section \<open>Monotonicity in the own similarity\<close>




















section \<open>The limits of the temperature\<close>



















section \<open>The scorer on malformed input\<close>

lemma cosine_step_None [simp]: "cosine_step a b i None = None"
  by (simp add: cosine_step_def)

lemma length_similaritiesToDistribution [simp]:
  "length (similaritiesToDistribution xs t m) = length xs"
  by (simp add: similaritiesToDistribution_softmax)

lemma cosine_step_Some:
  "cosine_step a b i (Some (d, na, nb)) =
     (if i < length b then Some (d + a ! i * b ! i, na + a ! i * a ! i, nb + b ! i * b ! i)
      else None)"
  by (simp add: cosine_step_def)

lemma cosine_fold_None [simp]: "fold (cosine_step a b) is None = None"
  by (induction "is") (simp_all add: cosine_step_def)

lemma cosine_fold_upt:
  "(fold (cosine_step a b) [0..<n] (Some s) = None) = (length b < n)"
proof (induction n)
  case 0
  then show ?case by simp
next
  case (Suc n)
  show ?case
  proof (cases "fold (cosine_step a b) [0..<n] (Some s)")
    case None
    with Suc show ?thesis by simp
  next
    case (Some acc)
    with Suc have n: "n \<le> length b" by simp
    have "fold (cosine_step a b) [0..<Suc n] (Some s) = cosine_step a b n (Some acc)"
      using Some by simp
    then show ?thesis
      using n by (cases acc) (auto simp: cosine_step_Some)
  qed
qed

lemma cosineSimilarity_NaN: "(cosineSimilarity a b = None) = (length b < length a)"
proof -
  have "(cosineSimilarity a b = None)
          = (fold (cosine_step a b) [0..<length a] (Some (0, 0, 0)) = None)"
    by (auto simp: cosineSimilarity_def Let_def split: option.splits prod.splits)
  then show ?thesis by (simp only: cosine_fold_upt)
qed

lemma computeSimilarities_NaN:
  "(None \<in> set (computeSimilarities r as)) = (\<exists>b\<in>set as. length b < length r)"
proof -
  have "(None \<in> set (computeSimilarities r as)) = (\<exists>b\<in>set as. cosineSimilarity r b = None)"
    unfolding computeSimilarities_def by (induction as) auto
  then show ?thesis by (simp only: cosineSimilarity_NaN)
qed

text \<open>
  Claim C1, as amended. The scorer checks nothing and has no error path: for every
  response vector, list of anchor vectors, temperature and normalization mode the call
  returns an array with one entry per anchor vector (the empty array for no anchors).
  When an anchor vector is shorter than the response vector, or the temperature is zero,
  every entry is \<^verbatim>\<open>NaN\<close>.
\<close>

theorem scorer_has_no_error_path:
  "\<exists>d. scoreSimilarities responseVector anchorVectors temperature normalization = Inr d
       \<and> length d = length anchorVectors
       \<and> ((\<exists>b\<in>set anchorVectors. length b < length responseVector) \<or> temperature = 0
            \<longrightarrow> list_all (\<lambda>p. p = None) d)"
  by (auto simp: scoreSimilarities_def similaritiesToDistribution_nan_def
      computeSimilarities_NaN [symmetric] list_all_iff computeSimilarities_def)

theorem scorer_has_no_error_path_witness:
  "\<exists>d. scoreSimilarities [1, 0] [[1]] 0 minmax = Inr d \<and> length d = length [[1 :: real]]
       \<and> ((\<exists>b\<in>set [[1 :: real]]. length b < length [1, 0 :: real]) \<or> (0 :: real) = 0)
       \<and> list_all (\<lambda>p. p = None) d"
proof -
  have h: "(\<exists>b\<in>set [[1 :: real]]. length b < length [1, 0 :: real]) \<or> (0 :: real) = 0" by simp
  from scorer_has_no_error_path [of "[1, 0]" "[[1]]" 0 minmax] h
  show ?thesis by blast
qed

lemma cos_1: "cosineSimilarity [1] [1, 0] = Some 1"
  by (simp add: cosineSimilarity_def cosine_step_def)

lemma cos_2: "cosineSimilarity [1] [0, 1] = Some 0"
  by (simp add: cosineSimilarity_def cosine_step_def)

lemma cos_3: "cosineSimilarity [1, 0] [1] = None"
  by (simp add: cosineSimilarity_NaN)

text \<open>
  Claim C1 as stated fails: with no anchors the call returns the empty array; with a
  response vector of dimension 1 and anchors of dimension 2 it returns a distribution
  computed on the first coordinate; with a response vector longer than the anchor it
  returns \<^verbatim>\<open>[NaN]\<close>. None of the three is an \<open>InvalidInput\<close> error.
\<close>

theorem scorer_returns_on_invalid_input:
  "scoreSimilarities [1, 0] [] (1 / 5) minmax = Inr []
   \<and> scoreSimilarities [1] [[1, 0], [0, 1]] (1 / 5) minmax
       = Inr [Some (1 / (1 + exp (- 5))), Some (exp (- 5) / (1 + exp (- 5)))]
   \<and> scoreSimilarities [1, 0] [[1]] (1 / 5) minmax = Inr [None]"
  by (simp add: scoreSimilarities_def similaritiesToDistribution_nan_def computeSimilarities_def
      cos_1 cos_2 cos_3 similaritiesToDistribution_def normalizeSimilarities_def Let_def)

section \<open>The length of the resolved anchors\<close>

lemma length_interpolateFromTemplate:
  assumes "length source5 = 5" and "1 \<le> sz"
  shows "int (length (interpolateFromTemplate source5 sz)) = sz"
  using assms by (simp add: interpolateFromTemplate_def)

lemma length_interpolateAnchors:
  assumes "1 \<le> sz"
  shows "int (length (interpolateAnchors lo hi sz)) = sz"
  using assms by (simp add: interpolateAnchors_def)

lemma TEMPLATES_shape:
  assumes "map_of TEMPLATES sem = Some template"
  shows "(\<forall>l. anchors11 template = Some l \<longrightarrow> length l = 11)
         \<and> (\<forall>l. anchors7 template = Some l \<longrightarrow> length l = 7)"
proof -
  from assms have "(sem, template) \<in> set TEMPLATES" by (rule map_of_SomeD)
  then show ?thesis
    by (auto simp: TEMPLATES_def nps_anchors11_def agreement_anchors7_def)
qed

lemma length_getAnchorsForSize:
  assumes "getAnchorsForSize sem sz = Some a"
  shows "int (length a) = sz"
proof (cases "map_of TEMPLATES sem")
  case None
  with assms show ?thesis by (simp add: getAnchorsForSize_def)
next
  case (Some template)
  note shape = TEMPLATES_shape [OF Some]
  show ?thesis
    using assms shape Some
    by (auto simp: getAnchorsForSize_def length_interpolateFromTemplate split: if_splits)
qed

lemma agreement_template:
  "map_of TEMPLATES ''agreement''
     = Some \<lparr>anchors5 = agreement_anchors5, anchors7 = Some agreement_anchors7, anchors11 = None\<rparr>"
  by (simp add: TEMPLATES_def)

lemma length_agreement_anchors5: "length agreement_anchors5 = 5"
  by (simp add: agreement_anchors5_def)

lemma getAnchorsForSize_agreement:
  assumes "1 \<le> sz"
  shows "\<exists>a. getAnchorsForSize ''agreement'' sz = Some a"
  using assms
  by (simp add: getAnchorsForSize_def agreement_template length_agreement_anchors5)


lemma resolveAnchors_nps:
  assumes "q_type q = nps"
  shows "resolveAnchors q
           = \<lparr>semantic = ''nps'', anchors = nps_anchors11, scaleMin = 0, scaleMax = 10\<rparr>"
  using assms by (simp add: resolveAnchors_def Let_def)

lemma length_nps_anchors11: "length nps_anchors11 = 11"
  by (simp add: nps_anchors11_def)

lemma resolveAnchors_bounded:
  assumes "q_type q \<noteq> nps" and "1 \<le> definitionMax q - definitionMin q + 1"
  shows "int (length (anchors (resolveAnchors q))) = definitionMax q - definitionMin q + 1
         \<and> scaleMin (resolveAnchors q) = definitionMin q
         \<and> scaleMax (resolveAnchors q) = definitionMax q"
proof -
  let ?sz = "definitionMax q - definitionMin q + 1"
  obtain d where d: "getAnchorsForSize ''agreement'' ?sz = Some d"
    using getAnchorsForSize_agreement [OF assms(2)] by blast
  have d_len: "int (length d) = ?sz" using d by (rule length_getAnchorsForSize)
  show ?thesis
    using assms d d_len
    unfolding resolveAnchors_def Let_def definitionMin_def [symmetric] definitionMax_def [symmetric]
    by (auto split: option.splits prod.splits
        simp: length_interpolateAnchors dest: length_getAnchorsForSize)
qed

text \<open>
  Claim C3. For every valid scale definition \<^verbatim>\<open>resolveAnchors\<close> returns an anchor set (the
  function is total: it has no \<^verbatim>\<open>throw\<close> and every array it reads is read in range)
  whose anchor list has \<open>max - min + 1\<close> entries, and whose bounds are the bounds of the
  definition.
\<close>

theorem resolveAnchors_length:
  assumes "validScaleDefinition question"
  shows "int (length (anchors (resolveAnchors question)))
           = definitionMax question - definitionMin question + 1
         \<and> scaleMin (resolveAnchors question) = definitionMin question
         \<and> scaleMax (resolveAnchors question) = definitionMax question"
proof (cases "q_type question = nps")
  case True
  with assms have "definitionMin question = 0" "definitionMax question = 10"
    by (simp_all add: validScaleDefinition_def)
  then show ?thesis
    using True by (simp add: resolveAnchors_nps length_nps_anchors11)
next
  case False
  moreover from assms have "1 \<le> definitionMax question - definitionMin question + 1"
    by (simp add: validScaleDefinition_def)
  ultimately show ?thesis by (rule resolveAnchors_bounded)
qed

theorem resolveAnchors_length_witness:
  "validScaleDefinition
     \<lparr>q_type = likert, q_text = ''How satisfied are you with the checkout experience?'',
      q_scaleMin = Some 1, q_scaleMax = Some 7, q_scaleAnchors = None\<rparr>
   \<and> length (anchors (resolveAnchors
        \<lparr>q_type = likert, q_text = ''How satisfied are you with the checkout experience?'',
         q_scaleMin = Some 1, q_scaleMax = Some 7, q_scaleAnchors = None\<rparr>)) = 7"
proof -
  let ?q = "\<lparr>q_type = likert, q_text = ''How satisfied are you with the checkout experience?'',
      q_scaleMin = Some 1, q_scaleMax = Some 7, q_scaleAnchors = None\<rparr>"
  have v: "validScaleDefinition ?q"
    by (simp add: validScaleDefinition_def definitionMin_def definitionMax_def)
  have "int (length (anchors (resolveAnchors ?q))) = 7"
    using resolveAnchors_length [OF v] by (simp add: definitionMin_def definitionMax_def)
  then show ?thesis using v by simp
qed

section \<open>The selection of the temperature\<close>

lemma fold_evaluate_step_Some:
  assumes "t \<noteq> 0"
  shows "\<exists>e w tot. fold (evaluate_step t) cs (e0, w0, Some tot0) = (e, w, Some tot)"
proof (induction cs arbitrary: e0 w0 tot0)
  case Nil
  then show ?case by simp
next
  case (Cons c cs)
  obtain e1 w1 tot1 where "evaluate_step t c (e0, w0, Some tot0) = (e1, w1, Some tot1)"
    using assms by (simp add: evaluate_step_def Let_def)
  then show ?case using Cons.IH [of e1 w1 tot1] by simp
qed

lemma mae_evaluate_None:
  assumes "t \<noteq> 0"
  shows "(mae (evaluate tr t) = None) = (tr = [])"
proof -
  obtain e w tot where "fold (evaluate_step t) tr (0, 0, Some 0) = (e, w, Some tot)"
    using fold_evaluate_step_Some [OF assms] by blast
  then show ?thesis by (simp add: evaluate_def)
qed

lemma js_less_Some [simp]: "js_less (Some x) (Some y) = (x < y)"
  by (simp add: js_less_def)

lemma js_less_None [simp]: "js_less None b = False" "js_less a None = False"
  by (simp_all add: js_less_def split: option.splits)

lemma js_less_irrefl [simp]: "\<not> js_less a a"
  by (cases a) simp_all

lemma not_worse_trans:
  assumes nz: "a \<noteq> 0" "b \<noteq> 0" "c \<noteq> 0"
    and ab: "exact (evaluate tr b) < exact (evaluate tr a)
      \<or> (exact (evaluate tr b) = exact (evaluate tr a)
          \<and> \<not> js_less (mae (evaluate tr b)) (mae (evaluate tr a)))"
    and bc: "exact (evaluate tr c) < exact (evaluate tr b)
      \<or> (exact (evaluate tr c) = exact (evaluate tr b)
          \<and> \<not> js_less (mae (evaluate tr c)) (mae (evaluate tr b)))"
  shows "exact (evaluate tr c) < exact (evaluate tr a)
      \<or> (exact (evaluate tr c) = exact (evaluate tr a)
          \<and> \<not> js_less (mae (evaluate tr c)) (mae (evaluate tr a)))"
proof (cases "tr = []")
  case True
  then have "mae (evaluate tr a) = None" using nz by (simp add: mae_evaluate_None)
  then show ?thesis using ab bc by auto
next
  case False
  then obtain x y z where "mae (evaluate tr a) = Some x" "mae (evaluate tr b) = Some y"
    "mae (evaluate tr c) = Some z"
    using mae_evaluate_None nz by (metis not_None_eq)
  then show ?thesis using ab bc by auto
qed

lemma findBestLoop_result:
  assumes "bt \<noteq> 0" and "0 \<notin> set ts"
  shows "\<exists>best. findBestLoop tr ts (bt, evaluate tr bt) = (best, evaluate tr best)
      \<and> best \<in> insert bt (set ts)
      \<and> (\<forall>t\<in>insert bt (set ts).
            exact (evaluate tr t) < exact (evaluate tr best)
            \<or> (exact (evaluate tr t) = exact (evaluate tr best)
                \<and> \<not> js_less (mae (evaluate tr t)) (mae (evaluate tr best))))"
  using assms
proof (induction ts arbitrary: bt)
  case Nil
  then show ?case by simp
next
  case (Cons temp temps)
  let ?better = "exact (evaluate tr temp) > exact (evaluate tr bt)
      \<or> (exact (evaluate tr temp) = exact (evaluate tr bt)
          \<and> js_less (mae (evaluate tr temp)) (mae (evaluate tr bt)))"
  from Cons.prems have nz: "bt \<noteq> 0" "temp \<noteq> 0" "0 \<notin> set temps" by auto
  show ?case
  proof (cases ?better)
    case True
    from Cons.IH [OF nz(2,3)] obtain best where
      b: "findBestLoop tr temps (temp, evaluate tr temp) = (best, evaluate tr best)"
        "best \<in> insert temp (set temps)"
      and all: "\<forall>t\<in>insert temp (set temps).
            exact (evaluate tr t) < exact (evaluate tr best)
            \<or> (exact (evaluate tr t) = exact (evaluate tr best)
                \<and> \<not> js_less (mae (evaluate tr t)) (mae (evaluate tr best)))"
      by blast
    have step: "exact (evaluate tr bt) < exact (evaluate tr temp)
            \<or> (exact (evaluate tr bt) = exact (evaluate tr temp)
                \<and> \<not> js_less (mae (evaluate tr bt)) (mae (evaluate tr temp)))"
      using True by (cases "mae (evaluate tr temp)"; cases "mae (evaluate tr bt)") auto
    have "exact (evaluate tr bt) < exact (evaluate tr best)
            \<or> (exact (evaluate tr bt) = exact (evaluate tr best)
                \<and> \<not> js_less (mae (evaluate tr bt)) (mae (evaluate tr best)))"
    proof (rule not_worse_trans [of best temp bt])
      show "best \<noteq> 0" using b(2) nz by auto
      show "temp \<noteq> 0" "bt \<noteq> 0" by (rule nz)+
      show "exact (evaluate tr temp) < exact (evaluate tr best)
            \<or> (exact (evaluate tr temp) = exact (evaluate tr best)
                \<and> \<not> js_less (mae (evaluate tr temp)) (mae (evaluate tr best)))"
        using all by simp
      show "exact (evaluate tr bt) < exact (evaluate tr temp)
            \<or> (exact (evaluate tr bt) = exact (evaluate tr temp)
                \<and> \<not> js_less (mae (evaluate tr bt)) (mae (evaluate tr temp)))"
        by (rule step)
    qed
    moreover have "findBestLoop tr (temp # temps) (bt, evaluate tr bt)
                     = findBestLoop tr temps (temp, evaluate tr temp)"
      using True by (auto simp: Let_def)
    ultimately show ?thesis using b all by (intro exI [of _ best]) auto
  next
    case False
    from Cons.IH [OF nz(1,3)] obtain best where
      b: "findBestLoop tr temps (bt, evaluate tr bt) = (best, evaluate tr best)"
        "best \<in> insert bt (set temps)"
      and all: "\<forall>t\<in>insert bt (set temps).
            exact (evaluate tr t) < exact (evaluate tr best)
            \<or> (exact (evaluate tr t) = exact (evaluate tr best)
                \<and> \<not> js_less (mae (evaluate tr t)) (mae (evaluate tr best)))"
      by blast
    have step: "exact (evaluate tr temp) < exact (evaluate tr bt)
            \<or> (exact (evaluate tr temp) = exact (evaluate tr bt)
                \<and> \<not> js_less (mae (evaluate tr temp)) (mae (evaluate tr bt)))"
      using False by auto
    have "exact (evaluate tr temp) < exact (evaluate tr best)
            \<or> (exact (evaluate tr temp) = exact (evaluate tr best)
                \<and> \<not> js_less (mae (evaluate tr temp)) (mae (evaluate tr best)))"
    proof (rule not_worse_trans [of best bt temp])
      show "best \<noteq> 0" using b(2) nz by auto
      show "bt \<noteq> 0" "temp \<noteq> 0" by (rule nz)+
      show "exact (evaluate tr bt) < exact (evaluate tr best)
            \<or> (exact (evaluate tr bt) = exact (evaluate tr best)
                \<and> \<not> js_less (mae (evaluate tr bt)) (mae (evaluate tr best)))"
        using all by simp
      show "exact (evaluate tr temp) < exact (evaluate tr bt)
            \<or> (exact (evaluate tr temp) = exact (evaluate tr bt)
                \<and> \<not> js_less (mae (evaluate tr temp)) (mae (evaluate tr bt)))"
        by (rule step)
    qed
    moreover have "findBestLoop tr (temp # temps) (bt, evaluate tr bt)
                     = findBestLoop tr temps (bt, evaluate tr bt)"
      using False by (auto simp: Let_def)
    ultimately show ?thesis using b all by (intro exI [of _ best]) auto
  qed
qed


text \<open>
  Claim C5. For every training set and every non-empty list of candidate temperatures
  (positive, as the scorer requires), the selected temperature is a candidate whose
  exact-match count on the training set is maximal and, among the candidates with that
  count, none has a smaller mean absolute error: the rule is lexicographic. On a
  non-empty training set every mean absolute error is a number and the selected one is
  the least among the maximizers.
\<close>

theorem findBestTemp_lexicographic:
  assumes "candidates \<noteq> []" and "list_all (\<lambda>t. 0 < t) candidates"
  shows "\<exists>best. findBestTempFrom candidates trainCases = (best, evaluate trainCases best)
      \<and> best \<in> set candidates
      \<and> (\<forall>t\<in>set candidates. exact (evaluate trainCases t) \<le> exact (evaluate trainCases best))
      \<and> (\<forall>t\<in>set candidates.
            exact (evaluate trainCases t) = exact (evaluate trainCases best)
            \<longrightarrow> \<not> js_less (mae (evaluate trainCases t)) (mae (evaluate trainCases best)))
      \<and> (trainCases \<noteq> [] \<longrightarrow>
            (\<exists>m. mae (evaluate trainCases best) = Some m
               \<and> (\<forall>t\<in>set candidates.
                     exact (evaluate trainCases t) = exact (evaluate trainCases best)
                     \<longrightarrow> (\<exists>m'. mae (evaluate trainCases t) = Some m' \<and> m \<le> m'))))"
proof -
  from assms(1) obtain first others where c: "candidates = first # others"
    by (cases candidates) auto
  from assms(2) have nz: "\<And>t. t \<in> set candidates \<Longrightarrow> t \<noteq> 0"
    by (auto simp: list_all_iff)
  then have "first \<noteq> 0" "0 \<notin> set others" using c by auto
  from findBestLoop_result [OF this, of trainCases] obtain best where
    b: "findBestLoop trainCases others (first, evaluate trainCases first)
          = (best, evaluate trainCases best)" "best \<in> set candidates"
    and all: "\<forall>t\<in>set candidates.
            exact (evaluate trainCases t) < exact (evaluate trainCases best)
            \<or> (exact (evaluate trainCases t) = exact (evaluate trainCases best)
                \<and> \<not> js_less (mae (evaluate trainCases t)) (mae (evaluate trainCases best)))"
    unfolding c by auto
  have sel: "findBestTempFrom candidates trainCases = (best, evaluate trainCases best)"
    using b(1) by (simp add: c)
  have le: "\<forall>t\<in>set candidates. exact (evaluate trainCases t) \<le> exact (evaluate trainCases best)"
    using all by auto
  have tie: "\<forall>t\<in>set candidates.
            exact (evaluate trainCases t) = exact (evaluate trainCases best)
            \<longrightarrow> \<not> js_less (mae (evaluate trainCases t)) (mae (evaluate trainCases best))"
    using all by auto
  have minimal: "\<exists>m. mae (evaluate trainCases best) = Some m
               \<and> (\<forall>t\<in>set candidates.
                     exact (evaluate trainCases t) = exact (evaluate trainCases best)
                     \<longrightarrow> (\<exists>m'. mae (evaluate trainCases t) = Some m' \<and> m \<le> m'))"
    if ne: "trainCases \<noteq> []"
  proof -
    have some: "\<exists>m. mae (evaluate trainCases t) = Some m" if "t \<in> set candidates" for t
      using mae_evaluate_None [OF nz [OF that], of trainCases] ne by auto
    from some [OF b(2)] obtain m where m: "mae (evaluate trainCases best) = Some m" by blast
    have "\<exists>m'. mae (evaluate trainCases t) = Some m' \<and> m \<le> m'"
      if t: "t \<in> set candidates"
        and eq: "exact (evaluate trainCases t) = exact (evaluate trainCases best)" for t
    proof -
      from some [OF t] obtain m' where m': "mae (evaluate trainCases t) = Some m'" by blast
      from tie t eq have "\<not> js_less (mae (evaluate trainCases t)) (mae (evaluate trainCases best))"
        by blast
      then have "m \<le> m'" by (simp add: m m')
      with m' show ?thesis by blast
    qed
    with m show ?thesis by blast
  qed
  show ?thesis
    using sel b(2) le tie minimal by blast
qed

theorem findBestTemp_lexicographic_witness:
  "[1 / 10, 1 / 5 :: real] \<noteq> [] \<and> list_all (\<lambda>t. 0 < t) [1 / 10, 1 / 5 :: real]
   \<and> (\<exists>best.
         findBestTempFrom [1 / 10, 1 / 5]
           [\<lparr>label = ''SAT-5'', expected = 5, domain = ''satisfaction'',
             anchorVecs = [6 / 10, 65 / 100, 7 / 10, 75 / 100, 9 / 10],
             tcScaleMin = 1, tcScaleMax = 5\<rparr>]
         = (best,
            evaluate
              [\<lparr>label = ''SAT-5'', expected = 5, domain = ''satisfaction'',
                anchorVecs = [6 / 10, 65 / 100, 7 / 10, 75 / 100, 9 / 10],
                tcScaleMin = 1, tcScaleMax = 5\<rparr>] best)
         \<and> best \<in> set [1 / 10, 1 / 5])"
proof -
  have a: "[1 / 10, 1 / 5 :: real] \<noteq> []" by simp
  have b: "list_all (\<lambda>t. 0 < t) [1 / 10, 1 / 5 :: real]" by simp
  from findBestTemp_lexicographic [OF a b] a b show ?thesis by blast
qed

section \<open>Calibration on too little data\<close>













section \<open>Reproducibility of the bootstrap\<close>

lemma unsigned_real_range:
  "0 \<le> (unsigned w :: real) \<and> (unsigned w :: real) \<le> 4294967295" for w :: "32 word"
proof -
  have eq: "(unsigned w :: real) = real (unat w)" by simp
  have "unat w < 4294967296" using unsigned_less [of w, where 'a = nat] by simp
  then have "unat w \<le> 4294967295" by simp
  then have "real (unat w) \<le> real 4294967295" by (simp only: of_nat_le_iff)
  then have "real (unat w) \<le> 4294967295" by (simp only: of_nat_numeral)
  moreover have "0 \<le> real (unat w)" by (rule of_nat_0_le_iff)
  ultimately show ?thesis by (simp only: eq)
qed

lemma mulberry32_range:
  "0 \<le> fst (mulberry32 seed) \<and> fst (mulberry32 seed) \<le> 4294967295 / 4294967296"
  using unsigned_real_range by (simp add: mulberry32_def Let_def)

text \<open>
  The index \<^verbatim>\<open>Math.floor(rng() * (i + 1))\<close> is at most \<open>i\<close>: the number drawn is at most
  \<open>1 - 2^(-32)\<close>, and the rounding of the product cannot reach \<open>i + 1\<close>.
\<close>

lemma shuffle_index_bound:
  assumes "0 \<le> r" and "r \<le> 4294967295 / 4294967296"
  shows "nat \<lfloor>fl (r * real (Suc k + 1))\<rfloor> \<le> Suc k"
proof -
  define n where "n = real (Suc k + 1)"
  have n2: "2 \<le> n" by (simp add: n_def)
  define x where "x = r * n"
  have x0: "0 \<le> x" using assms(1) n2 by (simp add: x_def)
  have "x \<le> 4294967295 / 4294967296 * n"
    unfolding x_def using assms(2) n2 by (intro mult_right_mono) simp_all
  then have xn: "x \<le> n - n / 4294967296" by (simp add: algebra_simps)
  have "fl x \<le> x + \<bar>x\<bar> / 2 ^ 53 + 1 / 2 ^ 1075" using fl_error [of x] by linarith
  also have "\<dots> \<le> (n - n / 4294967296) + n / 2 ^ 53 + 1 / 2 ^ 1075"
    using xn x0 n2 by (simp add: divide_simps)
  also have "\<dots> < n"
  proof -
    have "(1 :: real) / 2 ^ 1075 < 1 / 2 ^ 53" by simp
    then have "n / 2 ^ 53 + 1 / 2 ^ 1075 < n / 2 ^ 53 + n / 2 ^ 53" using n2 by (simp add: divide_simps)
    also have "\<dots> \<le> n / 4294967296" using n2 by simp
    finally show ?thesis by linarith
  qed
  finally have "fl x < real (Suc k + 1)" by (simp add: n_def)
  then have "\<lfloor>fl x\<rfloor> < int (Suc k + 1)" by (simp add: floor_less_iff)
  then show ?thesis unfolding x_def n_def by simp
qed

lemma shuffle_loop_mset:
  assumes "k < length xs \<or> k = 0"
  shows "mset (fst (shuffle_loop k xs seed)) = mset xs"
  using assms
proof (induction k arbitrary: xs seed)
  case 0
  then show ?case by simp
next
  case (Suc k)
  obtain r seed' where m: "mulberry32 seed = (r, seed')" by (cases "mulberry32 seed")
  let ?j = "nat \<lfloor>fl (r * real (Suc k + 1))\<rfloor>"
  have r: "0 \<le> r" "r \<le> 4294967295 / 4294967296" using mulberry32_range [of seed] m by simp_all
  have j: "?j \<le> Suc k" using r by (rule shuffle_index_bound)
  from Suc.prems have i: "Suc k < length xs" by simp
  with j have j': "?j < length xs" by simp
  let ?ys = "xs[Suc k := xs ! ?j, ?j := xs ! Suc k]"
  have "mset ?ys = mset xs" using i j' by (simp add: mset_swap)
  moreover have "mset (fst (shuffle_loop k ?ys seed')) = mset ?ys"
    using i by (intro Suc.IH) simp
  ultimately show ?case using m by (simp add: Let_def)
qed

lemma shuffle_mset: "mset (fst (shuffle arr seed)) = mset arr"
  unfolding shuffle_def by (rule shuffle_loop_mset) (cases arr; simp)

lemma shuffle_length: "length (fst (shuffle arr seed)) = length arr"
  using shuffle_mset [of arr seed] by (rule mset_eq_length)

text \<open>
  A shuffle of \<open>n\<close> elements draws \<open>n - 1\<close> numbers, whatever the elements are.
\<close>

lemma seedAfter_Suc: "seedAfter (Suc k) seed = seedAfter k (snd (mulberry32 seed))"
  using funpow_swap1 [of "\<lambda>s. snd (mulberry32 s)" k seed] by (simp add: seedAfter_def)

lemma seedAfter_add: "seedAfter (a + b) seed = seedAfter a (seedAfter b seed)"
  by (simp add: seedAfter_def funpow_add)

lemma shuffle_loop_seed: "snd (shuffle_loop k xs seed) = seedAfter k seed"
proof (induction k arbitrary: xs seed)
  case 0
  then show ?case by (simp add: seedAfter_def)
next
  case (Suc k)
  obtain r seed' where m: "mulberry32 seed = (r, seed')" by (cases "mulberry32 seed")
  show ?case using m Suc.IH by (simp add: Let_def seedAfter_Suc)
qed

lemma shuffle_seed: "snd (shuffle arr seed) = seedAfter (length arr - 1) seed"
  by (simp add: shuffle_def shuffle_loop_seed)

lemma bootstrapSplit_seed:
  "snd (bootstrapSplit embedded seed) = seedAfter (length embedded - 1) seed"
  using shuffle_seed [of embedded seed]
  by (cases "shuffle embedded seed") (simp add: bootstrapSplit_def Let_def)

lemma bootstrapSplit_partition:
  "(case fst (bootstrapSplit embedded seed) of (train, test) \<Rightarrow>
      mset (train @ test) = mset embedded
      \<and> length train = min (length embedded)
           (nat \<lfloor>fl (real (length embedded) * BOOTSTRAP_TRAIN_RATIO)\<rfloor>))"
proof -
  obtain shuffled seed' where s: "shuffle embedded seed = (shuffled, seed')"
    by (cases "shuffle embedded seed")
  have perm: "mset shuffled = mset embedded" using shuffle_mset [of embedded seed] s by simp
  have len: "length shuffled = length embedded" using shuffle_length [of embedded seed] s by simp
  let ?k = "nat \<lfloor>fl (real (length shuffled) * BOOTSTRAP_TRAIN_RATIO)\<rfloor>"
  have b: "fst (bootstrapSplit embedded seed) = (take ?k shuffled, drop ?k shuffled)"
    using s by (simp add: bootstrapSplit_def Let_def)
  have "mset (take ?k shuffled @ drop ?k shuffled) = mset embedded"
    by (simp only: append_take_drop_id perm)
  moreover have "length (take ?k shuffled)
      = min (length embedded) (nat \<lfloor>fl (real (length embedded) * BOOTSTRAP_TRAIN_RATIO)\<rfloor>)"
    by (simp only: length_take len)
  ultimately show ?thesis unfolding b prod.case by (rule conjI)
qed

text \<open>
  The repeats share the generator and each shuffles the input itself: the assignment of
  repeat \<open>i\<close> is the split of the input at the state that the generator has after
  \<open>i\<close> shuffles.
\<close>

lemma bootstrap_assignments_eq:
  "bootstrap_assignments n embedded seed
     = map (\<lambda>i. fst (bootstrapSplit embedded (seedAfter (i * (length embedded - 1)) seed)))
         [0..<n]"
proof (induction n arbitrary: seed)
  case 0
  then show ?case by simp
next
  case (Suc n)
  let ?m = "length embedded - 1"
  obtain split seed' where b: "bootstrapSplit embedded seed = (split, seed')"
    by (cases "bootstrapSplit embedded seed")
  have seed': "seed' = seedAfter ?m seed" using bootstrapSplit_seed [of embedded seed] b by simp
  have shift: "seedAfter (i * ?m) seed' = seedAfter (Suc i * ?m) seed" for i
    unfolding seed' by (simp add: seedAfter_add [symmetric] add.commute)
  have "bootstrap_assignments (Suc n) embedded seed
          = split # bootstrap_assignments n embedded seed'"
    using b by simp
  also have "\<dots> = split # map (\<lambda>i. fst (bootstrapSplit embedded (seedAfter (Suc i * ?m) seed)))
                             [0..<n]"
    unfolding Suc.IH shift ..
  also have "\<dots> = map (\<lambda>i. fst (bootstrapSplit embedded (seedAfter (i * ?m) seed)))
                      (0 # map Suc [0..<n])"
    using b by (simp add: seedAfter_def comp_def)
  also have "0 # map Suc [0..<n] = [0..<Suc n]"
    by (simp only: map_Suc_upt upt_conv_Cons [of 0 "Suc n"] zero_less_Suc)
  finally show ?case .
qed

text \<open>
  What the run returns is computed from the assignments: the calibration of the train
  array and the evaluation of the test array at the calibrated temperature.
\<close>

lemma bootstrap_loop_eq:
  "bootstrap_loop n embedded seed acc
     = \<lparr>exactPcts = exactPcts acc
          @ map (\<lambda>s. map_option real_of_int (exactPct (snd (repeatResult s))))
              (bootstrap_assignments n embedded seed),
        withinOnePcts = withinOnePcts acc
          @ map (\<lambda>s. map_option real_of_int (withinOnePct (snd (repeatResult s))))
              (bootstrap_assignments n embedded seed),
        maes = maes acc
          @ map (\<lambda>s. mae (snd (repeatResult s))) (bootstrap_assignments n embedded seed),
        temps = temps acc
          @ map (\<lambda>s. Some (fst (repeatResult s))) (bootstrap_assignments n embedded seed)\<rparr>"
proof (induction n arbitrary: seed acc)
  case 0
  then show ?case by simp
next
  case (Suc n)
  obtain train test seed' where b: "bootstrapSplit embedded seed = ((train, test), seed')"
    by (cases "bootstrapSplit embedded seed") auto
  obtain temp trainRes where f: "findBestTemp train = (temp, trainRes)"
    by (cases "findBestTemp train")
  show ?case using b f by (simp add: Suc.IH Let_def repeatResult_def)
qed

lemma fl_dyadic:
  assumes "\<bar>n\<bar> < 2 ^ 53" and "k \<le> 1022"
  shows "fl (real_of_int n / 2 ^ k) = real_of_int n / 2 ^ k"
proof (cases "n = 0")
  case True
  then show ?thesis by (simp add: fl_def round_ties_even_def)
next
  case False
  define x where "x = \<bar>real_of_int n\<bar>"
  define e where "e = \<lfloor>log 2 x\<rfloor>"
  have x1: "1 \<le> x" using False by (simp add: x_def)
  have "real_of_int \<bar>n\<bar> < real_of_int (2 ^ 53)" using assms(1) by (simp only: of_int_less_iff)
  then have x53: "x < 2 ^ 53" by (simp add: x_def)
  have "0 \<le> log 2 x" using x1 by simp
  then have e0: "0 \<le> e" by (simp add: e_def)
  have "log 2 x < 53" using x1 x53 by (subst log_less_iff) simp_all
  then have e52: "e \<le> 52" by (simp add: e_def floor_le_iff)
  define m where "m = nat (52 - e)"
  have "\<bar>real_of_int n / 2 ^ k\<bar> = x / 2 ^ k" by (simp add: x_def)
  then have "log 2 \<bar>real_of_int n / 2 ^ k\<bar> = log 2 x - real k"
    using x1 by (simp add: log_divide log_nat_power)
  then have "log 2 \<bar>real_of_int n / 2 ^ k\<bar> = log 2 x - real_of_int (int k)" by simp
  then have fl_e: "\<lfloor>log 2 \<bar>real_of_int n / 2 ^ k\<bar>\<rfloor> = e - int k"
    by (simp only: floor_diff_of_int e_def)
  have "- 1022 \<le> e - int k" using e0 assms(2) by simp
  then have "max (e - int k) (- 1022) = e - int k" by (rule max_absorb1)
  then have "ulp (real_of_int n / 2 ^ k) = 2 powr real_of_int (e - int k - 52)"
    by (simp only: ulp_def fl_e)
  also have "real_of_int (e - int k - 52) = - real (m + k)" using e52 by (simp add: m_def)
  also have "2 powr (- real (m + k)) = 1 / 2 ^ (m + k)"
    by (simp only: powr_minus powr_realpow [OF zero_less_numeral] inverse_eq_divide)
  finally have u: "ulp (real_of_int n / 2 ^ k) = 1 / 2 ^ (m + k)" .
  have "real_of_int n / 2 ^ k / ulp (real_of_int n / 2 ^ k) = real_of_int (n * 2 ^ m)"
    by (simp add: u power_add)
  then have "fl (real_of_int n / 2 ^ k) = real_of_int (n * 2 ^ m) * (1 / 2 ^ (m + k))"
    by (simp only: fl_def round_ties_even_of_int u)
  then show ?thesis by (simp add: power_add)
qed

lemma mulberry32_exact:
  assumes "\<bar>seed + 0x6d2b79f5\<bar> < 2 ^ 53"
  shows "mulberry32 seed =
     (let seed' = seed + 0x6d2b79f5;
          t0 = (word_of_int seed' :: 32 word);
          t1 = (t0 XOR drop_bit 15 t0) * (t0 OR 1);
          t2 = t1 XOR (t1 + (t1 XOR drop_bit 7 t1) * (t1 OR 61))
      in (real (unat (t2 XOR drop_bit 14 t2)) / 4294967296, seed'))"
proof -
  have "fl (real_of_int seed + 0x6d2b79f5) = real_of_int (seed + 0x6d2b79f5)"
    using fl_of_int [OF assms] by simp
  then show ?thesis by (simp add: mulberry32_def)
qed

lemma draw_1: "mulberry32 42 = (2581720956 / 2 ^ 32, 1831565855)"
  by (subst mulberry32_exact) (simp_all add: Let_def)

lemma draw_2: "mulberry32 1831565855 = (1925393290 / 2 ^ 32, 3663131668)"
  by (subst mulberry32_exact) (simp_all add: Let_def)

lemma draw_3: "mulberry32 3663131668 = (3661312704 / 2 ^ 32, 5494697481)"
  by (subst mulberry32_exact) (simp_all add: Let_def)

lemma draw_4: "mulberry32 5494697481 = (2876485805 / 2 ^ 32, 7326263294)"
  by (subst mulberry32_exact) (simp_all add: Let_def)

lemma draw_5: "mulberry32 7326263294 = (750819978 / 2 ^ 32, 9157829107)"
  by (subst mulberry32_exact) (simp_all add: Let_def)

lemma draw_6: "mulberry32 9157829107 = (2261697747 / 2 ^ 32, 10989394920)"
  by (subst mulberry32_exact) (simp_all add: Let_def)

lemma index_exact:
  assumes "0 \<le> w" and "w * int n < 2 ^ 53"
  shows "nat \<lfloor>fl (real_of_int w / 2 ^ 32 * real n)\<rfloor> = nat (w * int n div 2 ^ 32)"
proof -
  have a: "real_of_int w / 2 ^ 32 * real n = real_of_int (w * int n) / 2 ^ 32" by simp
  have "\<bar>w * int n\<bar> < 2 ^ 53" using assms by simp
  then have b: "fl (real_of_int (w * int n) / 2 ^ 32) = real_of_int (w * int n) / 2 ^ 32"
    by (rule fl_dyadic) simp
  have c: "\<lfloor>real_of_int (w * int n) / 2 ^ 32 :: real\<rfloor> = w * int n div 2 ^ 32"
    using floor_divide_of_int_eq [of "w * int n" "2 ^ 32", where 'a = real] by simp
  show ?thesis by (simp only: a b c)
qed

lemma shuffle_42: "shuffle [a, b, c, d] 42 = ([a, d, b, c], 5494697481)"
proof -
  have j1: "nat \<lfloor>fl (2581720956 / 2 ^ 32 * real (Suc 2 + 1))\<rfloor> = 2"
    using index_exact [of 2581720956 "Suc 2 + 1"] by simp
  have j2: "nat \<lfloor>fl (1925393290 / 2 ^ 32 * real (Suc 1 + 1))\<rfloor> = 1"
    using index_exact [of 1925393290 "Suc 1 + 1"] by simp
  have j3: "nat \<lfloor>fl (3661312704 / 2 ^ 32 * real (Suc 0 + 1))\<rfloor> = 1"
    using index_exact [of 3661312704 "Suc 0 + 1"] by simp
  have s1: "shuffle_loop (Suc 2) [a, b, c, d] 42 = shuffle_loop 2 [a, b, d, c] 1831565855"
    by (simp only: shuffle_loop.simps draw_1 Let_def prod.case j1) simp
  have s2: "shuffle_loop (Suc 1) [a, b, d, c] 1831565855 = shuffle_loop 1 [a, d, b, c] 3663131668"
    by (simp only: shuffle_loop.simps draw_2 Let_def prod.case j2) simp
  have s3: "shuffle_loop (Suc 0) [a, d, b, c] 3663131668 = shuffle_loop 0 [a, d, b, c] 5494697481"
    by (simp only: shuffle_loop.simps draw_3 Let_def prod.case j3) simp
  have "shuffle [a, b, c, d] 42 = shuffle_loop (Suc 2) [a, b, c, d] 42"
    by (simp add: shuffle_def numeral_3_eq_3 numeral_2_eq_2)
  also have "\<dots> = shuffle_loop (Suc 1) [a, b, d, c] 1831565855"
    unfolding s1 by (simp add: numeral_2_eq_2)
  also have "\<dots> = shuffle_loop (Suc 0) [a, d, b, c] 3663131668"
    unfolding s2 by simp
  also have "\<dots> = ([a, d, b, c], 5494697481)"
    unfolding s3 by simp
  finally show ?thesis .
qed

lemma shuffle_5494697481:
  "shuffle [a, b, c, d] 5494697481 = ([d, b, a, c], 10989394920)"
proof -
  have j1: "nat \<lfloor>fl (2876485805 / 2 ^ 32 * real (Suc 2 + 1))\<rfloor> = 2"
    using index_exact [of 2876485805 "Suc 2 + 1"] by simp
  have j2: "nat \<lfloor>fl (750819978 / 2 ^ 32 * real (Suc 1 + 1))\<rfloor> = 0"
    using index_exact [of 750819978 "Suc 1 + 1"] by simp
  have j3: "nat \<lfloor>fl (2261697747 / 2 ^ 32 * real (Suc 0 + 1))\<rfloor> = 1"
    using index_exact [of 2261697747 "Suc 0 + 1"] by simp
  have s1: "shuffle_loop (Suc 2) [a, b, c, d] 5494697481 = shuffle_loop 2 [a, b, d, c] 7326263294"
    by (simp only: shuffle_loop.simps draw_4 Let_def prod.case j1) simp
  have s2: "shuffle_loop (Suc 1) [a, b, d, c] 7326263294 = shuffle_loop 1 [d, b, a, c] 9157829107"
    by (simp only: shuffle_loop.simps draw_5 Let_def prod.case j2) simp
  have s3: "shuffle_loop (Suc 0) [d, b, a, c] 9157829107 = shuffle_loop 0 [d, b, a, c] 10989394920"
    by (simp only: shuffle_loop.simps draw_6 Let_def prod.case j3) simp
  have "shuffle [a, b, c, d] 5494697481 = shuffle_loop (Suc 2) [a, b, c, d] 5494697481"
    by (simp add: shuffle_def numeral_3_eq_3 numeral_2_eq_2)
  also have "\<dots> = shuffle_loop (Suc 1) [a, b, d, c] 7326263294"
    unfolding s1 by (simp add: numeral_2_eq_2)
  also have "\<dots> = shuffle_loop (Suc 0) [d, b, a, c] 9157829107"
    unfolding s2 by simp
  also have "\<dots> = ([d, b, a, c], 10989394920)"
    unfolding s3 by simp
  finally show ?thesis .
qed

text \<open>
  The split index. The literal \<^verbatim>\<open>0.7\<close> is the double \<open>6305039478318694 / 2^53\<close>, just
  below seven tenths, and the product with the length is rounded: 90 cases are split at
  62, not at 63.
\<close>

lemma BOOTSTRAP_TRAIN_RATIO_eq: "BOOTSTRAP_TRAIN_RATIO = 6305039478318694 / 2 ^ 53"
  unfolding BOOTSTRAP_TRAIN_RATIO_def
  by (subst fl_eq [of "- 1"])
    (simp_all add: powr_minus powr_numeral round_ties_even_def Let_def divide_simps
      floor_divide_real_eq_div)

lemma splitIdx_4: "nat \<lfloor>fl (real (4 :: nat) * BOOTSTRAP_TRAIN_RATIO)\<rfloor> = 2"
  unfolding BOOTSTRAP_TRAIN_RATIO_eq
  by (subst fl_eq [of 1])
    (simp_all add: powr_minus powr_numeral round_ties_even_def Let_def divide_simps
      floor_divide_real_eq_div)

lemma splitIdx_69: "nat \<lfloor>fl (real (69 :: nat) * BOOTSTRAP_TRAIN_RATIO)\<rfloor> = 48"
  unfolding BOOTSTRAP_TRAIN_RATIO_eq
  by (subst fl_eq [of 5])
    (simp_all add: powr_minus powr_numeral round_ties_even_def Let_def divide_simps
      floor_divide_real_eq_div)

lemma splitIdx_90: "nat \<lfloor>fl (real (90 :: nat) * BOOTSTRAP_TRAIN_RATIO)\<rfloor> = 62"
  unfolding BOOTSTRAP_TRAIN_RATIO_eq
  by (subst fl_eq [of 5])
    (simp_all add: powr_minus powr_numeral round_ties_even_def Let_def divide_simps
      floor_divide_real_eq_div)

lemma splitIdx_le: "nat \<lfloor>fl (real n * BOOTSTRAP_TRAIN_RATIO)\<rfloor> \<le> n"
proof (cases "n = 0")
  case True
  then show ?thesis by (simp add: fl_def round_ties_even_def)
next
  case False
  define x where "x = real n * BOOTSTRAP_TRAIN_RATIO"
  have n1: "1 \<le> real n" using False by simp
  have x0: "0 \<le> x" by (simp add: x_def BOOTSTRAP_TRAIN_RATIO_eq)
  have "BOOTSTRAP_TRAIN_RATIO \<le> 7 / 10" by (simp add: BOOTSTRAP_TRAIN_RATIO_eq)
  then have "x \<le> real n * (7 / 10)" unfolding x_def by (intro mult_left_mono) simp_all
  then have xn: "x \<le> 7 / 10 * real n" by simp
  have "fl x \<le> x + \<bar>x\<bar> / 2 ^ 53 + 1 / 2 ^ 1075" using fl_error [of x] by linarith
  also have "\<dots> \<le> 7 / 10 * real n + (7 / 10 * real n) / 2 ^ 53 + 1 / 2 ^ 1075"
    using xn x0 by (simp add: divide_simps)
  also have "\<dots> < real n"
  proof -
    have "(1 :: real) / 2 ^ 1075 < 1 / 10" by simp
    with n1 have "(1 :: real) / 2 ^ 1075 < real n / 10" by linarith
    moreover have "(7 / 10 * real n) / 2 ^ 53 \<le> real n / 10" using n1 by simp
    ultimately show ?thesis by linarith
  qed
  finally have "\<lfloor>fl x\<rfloor> < int n" by (simp add: floor_less_iff)
  then show ?thesis unfolding x_def by simp
qed

lemma bootstrapSplit_length:
  "(case fst (bootstrapSplit embedded seed) of (train, test) \<Rightarrow>
      mset (train @ test) = mset embedded
      \<and> length train = nat \<lfloor>fl (real (length embedded) * BOOTSTRAP_TRAIN_RATIO)\<rfloor>)"
  using bootstrapSplit_partition [of embedded seed] splitIdx_le [of "length embedded"]
  by (cases "fst (bootstrapSplit embedded seed)") (simp add: min_def)

text \<open>
  Claim C10. \<^verbatim>\<open>runBootstrap\<close> creates its generator from the seed on entry and draws from
  nothing else. The repeats share the generator and every repeat shuffles a copy of the
  input, so the train and test arrays of repeat \<open>i\<close> are the split of the input at the
  state that the generator has after \<open>i\<close> shuffles of \<open>n - 1\<close> draws each: they are
  determined by the seed and the cases. Each is a partition of the cases at the split
  index, and what the run returns and prints is computed from them. Hence two runs with
  the same seed and the same cases make the same assignment in each of the 100 repeats
  and report the same intervals.
\<close>

theorem bootstrap_reproducible:
  assumes "seed1 = seed2" and "embedded1 = embedded2"
  shows "bootstrap_assignments BOOTSTRAP_REPEATS embedded1 seed1
           = bootstrap_assignments BOOTSTRAP_REPEATS embedded2 seed2
         \<and> exactInterval (runBootstrapFrom seed1 embedded1)
             = exactInterval (runBootstrapFrom seed2 embedded2)
         \<and> withinOneInterval (runBootstrapFrom seed1 embedded1)
             = withinOneInterval (runBootstrapFrom seed2 embedded2)
         \<and> maeInterval (runBootstrapFrom seed1 embedded1)
             = maeInterval (runBootstrapFrom seed2 embedded2)
         \<and> tempInterval (runBootstrapFrom seed1 embedded1)
             = tempInterval (runBootstrapFrom seed2 embedded2)
         \<and> bootstrap_assignments BOOTSTRAP_REPEATS embedded1 seed1
             = map (\<lambda>i. fst (bootstrapSplit embedded1
                                (seedAfter (i * (length embedded1 - 1)) seed1)))
                 [0..<BOOTSTRAP_REPEATS]
         \<and> list_all (\<lambda>(train, test).
                mset (train @ test) = mset embedded1
                \<and> length train
                    = nat \<lfloor>fl (real (length embedded1) * BOOTSTRAP_TRAIN_RATIO)\<rfloor>)
              (bootstrap_assignments BOOTSTRAP_REPEATS embedded1 seed1)
         \<and> result (runBootstrapFrom seed1 embedded1)
             = \<lparr>exactPcts = map (\<lambda>s. map_option real_of_int (exactPct (snd (repeatResult s))))
                   (bootstrap_assignments BOOTSTRAP_REPEATS embedded1 seed1),
                withinOnePcts = map (\<lambda>s. map_option real_of_int (withinOnePct (snd (repeatResult s))))
                   (bootstrap_assignments BOOTSTRAP_REPEATS embedded1 seed1),
                maes = map (\<lambda>s. mae (snd (repeatResult s)))
                   (bootstrap_assignments BOOTSTRAP_REPEATS embedded1 seed1),
                temps = map (\<lambda>s. Some (fst (repeatResult s)))
                   (bootstrap_assignments BOOTSTRAP_REPEATS embedded1 seed1)\<rparr>"
proof -
  have parts: "list_all (\<lambda>(train, test).
                mset (train @ test) = mset embedded1
                \<and> length train
                    = nat \<lfloor>fl (real (length embedded1) * BOOTSTRAP_TRAIN_RATIO)\<rfloor>)
              (bootstrap_assignments BOOTSTRAP_REPEATS embedded1 seed1)"
    unfolding bootstrap_assignments_eq list_all_iff using bootstrapSplit_length by auto
  have res: "result (runBootstrapFrom seed1 embedded1)
             = \<lparr>exactPcts = map (\<lambda>s. map_option real_of_int (exactPct (snd (repeatResult s))))
                   (bootstrap_assignments BOOTSTRAP_REPEATS embedded1 seed1),
                withinOnePcts = map (\<lambda>s. map_option real_of_int (withinOnePct (snd (repeatResult s))))
                   (bootstrap_assignments BOOTSTRAP_REPEATS embedded1 seed1),
                maes = map (\<lambda>s. mae (snd (repeatResult s)))
                   (bootstrap_assignments BOOTSTRAP_REPEATS embedded1 seed1),
                temps = map (\<lambda>s. Some (fst (repeatResult s)))
                   (bootstrap_assignments BOOTSTRAP_REPEATS embedded1 seed1)\<rparr>"
    by (simp add: runBootstrapFrom_def Let_def bootstrap_loop_eq)
  show ?thesis
    using assms parts res bootstrap_assignments_eq [of BOOTSTRAP_REPEATS embedded1 seed1]
    by (simp only: simp_thms)
qed

theorem bootstrap_reproducible_witness:
  "(42 :: int) = 42
   \<and> [\<lparr>label = ''SAT-1'', expected = 1, domain = ''satisfaction'',
        anchorVecs = [7/10, 7/10, 7/10, 7/10, 7/10], tcScaleMin = 1, tcScaleMax = 5\<rparr>,
        \<lparr>label = ''SAT-2'', expected = 2, domain = ''satisfaction'',
        anchorVecs = [7/10, 7/10, 7/10, 7/10, 7/10], tcScaleMin = 1, tcScaleMax = 5\<rparr>,
        \<lparr>label = ''SAT-3'', expected = 3, domain = ''satisfaction'',
        anchorVecs = [7/10, 7/10, 7/10, 7/10, 7/10], tcScaleMin = 1, tcScaleMax = 5\<rparr>,
        \<lparr>label = ''SAT-4'', expected = 4, domain = ''satisfaction'',
        anchorVecs = [7/10, 7/10, 7/10, 7/10, 7/10], tcScaleMin = 1, tcScaleMax = 5\<rparr>]
     = [\<lparr>label = ''SAT-1'', expected = 1, domain = ''satisfaction'',
        anchorVecs = [7/10, 7/10, 7/10, 7/10, 7/10], tcScaleMin = 1, tcScaleMax = 5\<rparr>,
        \<lparr>label = ''SAT-2'', expected = 2, domain = ''satisfaction'',
        anchorVecs = [7/10, 7/10, 7/10, 7/10, 7/10], tcScaleMin = 1, tcScaleMax = 5\<rparr>,
        \<lparr>label = ''SAT-3'', expected = 3, domain = ''satisfaction'',
        anchorVecs = [7/10, 7/10, 7/10, 7/10, 7/10], tcScaleMin = 1, tcScaleMax = 5\<rparr>,
        \<lparr>label = ''SAT-4'', expected = 4, domain = ''satisfaction'',
        anchorVecs = [7/10, 7/10, 7/10, 7/10, 7/10], tcScaleMin = 1, tcScaleMax = 5\<rparr>]
   \<and> bootstrap_assignments BOOTSTRAP_REPEATS
       [\<lparr>label = ''SAT-1'', expected = 1, domain = ''satisfaction'',
        anchorVecs = [7/10, 7/10, 7/10, 7/10, 7/10], tcScaleMin = 1, tcScaleMax = 5\<rparr>,
        \<lparr>label = ''SAT-2'', expected = 2, domain = ''satisfaction'',
        anchorVecs = [7/10, 7/10, 7/10, 7/10, 7/10], tcScaleMin = 1, tcScaleMax = 5\<rparr>,
        \<lparr>label = ''SAT-3'', expected = 3, domain = ''satisfaction'',
        anchorVecs = [7/10, 7/10, 7/10, 7/10, 7/10], tcScaleMin = 1, tcScaleMax = 5\<rparr>,
        \<lparr>label = ''SAT-4'', expected = 4, domain = ''satisfaction'',
        anchorVecs = [7/10, 7/10, 7/10, 7/10, 7/10], tcScaleMin = 1, tcScaleMax = 5\<rparr>] 42 ! 0
     = ([\<lparr>label = ''SAT-1'', expected = 1, domain = ''satisfaction'',
        anchorVecs = [7/10, 7/10, 7/10, 7/10, 7/10], tcScaleMin = 1, tcScaleMax = 5\<rparr>,
         \<lparr>label = ''SAT-4'', expected = 4, domain = ''satisfaction'',
        anchorVecs = [7/10, 7/10, 7/10, 7/10, 7/10], tcScaleMin = 1, tcScaleMax = 5\<rparr>],
        [\<lparr>label = ''SAT-2'', expected = 2, domain = ''satisfaction'',
        anchorVecs = [7/10, 7/10, 7/10, 7/10, 7/10], tcScaleMin = 1, tcScaleMax = 5\<rparr>,
         \<lparr>label = ''SAT-3'', expected = 3, domain = ''satisfaction'',
        anchorVecs = [7/10, 7/10, 7/10, 7/10, 7/10], tcScaleMin = 1, tcScaleMax = 5\<rparr>])
   \<and> bootstrap_assignments BOOTSTRAP_REPEATS
       [\<lparr>label = ''SAT-1'', expected = 1, domain = ''satisfaction'',
        anchorVecs = [7/10, 7/10, 7/10, 7/10, 7/10], tcScaleMin = 1, tcScaleMax = 5\<rparr>,
        \<lparr>label = ''SAT-2'', expected = 2, domain = ''satisfaction'',
        anchorVecs = [7/10, 7/10, 7/10, 7/10, 7/10], tcScaleMin = 1, tcScaleMax = 5\<rparr>,
        \<lparr>label = ''SAT-3'', expected = 3, domain = ''satisfaction'',
        anchorVecs = [7/10, 7/10, 7/10, 7/10, 7/10], tcScaleMin = 1, tcScaleMax = 5\<rparr>,
        \<lparr>label = ''SAT-4'', expected = 4, domain = ''satisfaction'',
        anchorVecs = [7/10, 7/10, 7/10, 7/10, 7/10], tcScaleMin = 1, tcScaleMax = 5\<rparr>] 42 ! 1
     = ([\<lparr>label = ''SAT-4'', expected = 4, domain = ''satisfaction'',
        anchorVecs = [7/10, 7/10, 7/10, 7/10, 7/10], tcScaleMin = 1, tcScaleMax = 5\<rparr>,
         \<lparr>label = ''SAT-2'', expected = 2, domain = ''satisfaction'',
        anchorVecs = [7/10, 7/10, 7/10, 7/10, 7/10], tcScaleMin = 1, tcScaleMax = 5\<rparr>],
        [\<lparr>label = ''SAT-1'', expected = 1, domain = ''satisfaction'',
        anchorVecs = [7/10, 7/10, 7/10, 7/10, 7/10], tcScaleMin = 1, tcScaleMax = 5\<rparr>,
         \<lparr>label = ''SAT-3'', expected = 3, domain = ''satisfaction'',
        anchorVecs = [7/10, 7/10, 7/10, 7/10, 7/10], tcScaleMin = 1, tcScaleMax = 5\<rparr>])"
proof -
  let ?c1 = "\<lparr>label = ''SAT-1'', expected = 1, domain = ''satisfaction'',
        anchorVecs = [7/10, 7/10, 7/10, 7/10, 7/10 :: real], tcScaleMin = 1, tcScaleMax = 5\<rparr>"
  let ?c2 = "\<lparr>label = ''SAT-2'', expected = 2, domain = ''satisfaction'',
        anchorVecs = [7/10, 7/10, 7/10, 7/10, 7/10 :: real], tcScaleMin = 1, tcScaleMax = 5\<rparr>"
  let ?c3 = "\<lparr>label = ''SAT-3'', expected = 3, domain = ''satisfaction'',
        anchorVecs = [7/10, 7/10, 7/10, 7/10, 7/10 :: real], tcScaleMin = 1, tcScaleMax = 5\<rparr>"
  let ?c4 = "\<lparr>label = ''SAT-4'', expected = 4, domain = ''satisfaction'',
        anchorVecs = [7/10, 7/10, 7/10, 7/10, 7/10 :: real], tcScaleMin = 1, tcScaleMax = 5\<rparr>"
  let ?cases = "[?c1, ?c2, ?c3, ?c4]"
  have a: "(42 :: int) = 42" by simp
  have b: "?cases = ?cases" by simp
  from bootstrap_reproducible [OF a b]
  have eq: "bootstrap_assignments BOOTSTRAP_REPEATS ?cases 42
      = map (\<lambda>i. fst (bootstrapSplit ?cases (seedAfter (i * (length ?cases - 1)) 42)))
          [0..<BOOTSTRAP_REPEATS]"
    by (elim conjE)
  have s0: "seedAfter 0 42 = 42" by (simp add: seedAfter_def)
  have "snd (shuffle [?c1, ?c2, ?c3, ?c4] 42) = seedAfter (length ?cases - 1) 42"
    by (rule shuffle_seed)
  then have s3: "seedAfter (Suc (Suc (Suc 0))) 42 = 5494697481" by (simp add: shuffle_42)
  have r0: "fst (bootstrapSplit ?cases 42) = ([?c1, ?c4], [?c2, ?c3])"
    using splitIdx_4 by (simp add: bootstrapSplit_def shuffle_42 Let_def)
  have r1: "fst (bootstrapSplit ?cases 5494697481) = ([?c4, ?c2], [?c1, ?c3])"
    using splitIdx_4 by (simp add: bootstrapSplit_def shuffle_5494697481 Let_def)
  have n0: "bootstrap_assignments BOOTSTRAP_REPEATS ?cases 42 ! 0 = ([?c1, ?c4], [?c2, ?c3])"
    unfolding eq by (simp add: BOOTSTRAP_REPEATS_def s0 r0 del: upt_Suc)
  have n1: "bootstrap_assignments BOOTSTRAP_REPEATS ?cases 42 ! 1 = ([?c4, ?c2], [?c1, ?c3])"
    unfolding eq by (simp add: BOOTSTRAP_REPEATS_def s3 r1 del: upt_Suc)
  from a b n0 n1 show ?thesis by (intro conjI)
qed

end
